theory Spec2Isabelle
  imports Main "HOL-Library.AList" "HOL-Library.Multiset"
begin

section \<open>The harness model of \<open>wv_harness.py\<close>\<close>

subsection \<open>Values and errors\<close>

text \<open>
  Every \<open>raise\<close> of the source and every failing lookup is a value. \<open>Exception\<close>
  carries the message the source formats; the other constructors are the built-in
  exceptions of failing dictionary, list and attribute accesses. \<open>UnknownItem\<close> is
  the \<open>Exception\<close> of \<open>_add_to_internal_bom\<close> whose message holds the item's repr.
\<close>

datatype error =
    Exception string
  | KeyError
  | IndexError
  | ValueError
  | AttributeError
  | UnknownItem

text \<open>A pin or wire reference is annotated \<open>(int, str)\<close> in the source.\<close>

datatype ref = Num int | Str string

datatype Side = LEFT | RIGHT

datatype ArrowWeight = SINGLE | DOUBLE

datatype ArrowDirection = NONE | BACK | FORWARD | BOTH

datatype Arrow = Arrow (direction: ArrowDirection) (weight: ArrowWeight)

subsection \<open>Components\<close>

text \<open>
  The classes of \<open>wv_dataclasses\<close> with the attributes that \<open>wv_harness.py\<close> reads.
  A Python dictionary whose iteration order is used is an association list in
  insertion order; \<open>map_of\<close> is the lookup and \<open>AList.update\<close> the assignment.
\<close>

text \<open>
  The declaration of \<open>bom_qty\<close> is in \<open>wv_dataclasses\<close>. It is an integer here; the
  section on Python numbers below treats quantities that are floats.
\<close>

record Component =
  ignore_in_bom :: bool
  bom_hash :: string
  bom_qty :: int

type_synonym AdditionalComponent = Component

text \<open>
  Modelled from the spec: the class of pin objects is not part of \<open>wv_harness.py\<close>.
  A pin starts inactive and each activation gives it a side and says whether it is
  a real connection; a later activation never removes an earlier one. The pin
  therefore keeps the list of its activations, empty while it is inactive.
\<close>

record Pin =
  activations :: "(Side \<times> bool) list"

record TopLevelGraphicalComponent = Component +
  designator :: string
  category :: "string option"
  additional_components :: "AdditionalComponent list"

record Connector = TopLevelGraphicalComponent +
  pins :: "ref list"
  pinlabels :: "ref list"
  pin_objects :: "(ref \<times> Pin) list"

text \<open>
  A pin object is shared between the connector that owns it and the mates and
  connections that mention it. The model names the shared object by its place:
  the key of its connector in \<open>Harness.connectors\<close> and its key in \<open>pin_objects\<close>.
\<close>

datatype PinAt = PinAt string ref

record Cable = TopLevelGraphicalComponent +
  colors :: "ref list"
  wirelabels :: "ref list"
  wire_objects :: "(ref \<times> Component) list"
  connections :: "(PinAt option \<times> ref \<times> PinAt option) list"

datatype Mate =
    MatePin PinAt PinAt Arrow
  | MateComponent string string Arrow

text \<open>The argument of \<open>_add_to_internal_bom\<close>, by its runtime class.\<close>

datatype item =
    IsConnector Connector
  | IsCable Cable
  | IsOtherTopLevel TopLevelGraphicalComponent
  | IsAdditionalComponent AdditionalComponent
  | IsOtherComponent Component

subsection \<open>The BOM mapping\<close>

text \<open>
  \<open>self.bom\<close> is a \<open>defaultdict(dict)\<close>: a key that is read and absent gets the empty
  dictionary. An entry is a dictionary with the keys \<open>qty\<close>, \<open>designators\<close> and
  \<open>category\<close>; a key that is absent is \<open>None\<close> here.
\<close>

record bom_entry =
  qty :: "int option"
  designators :: "string set option"
  entry_category :: "string option"

type_synonym bom = "string \<rightharpoonup> bom_entry"

definition empty_entry :: bom_entry where
  "empty_entry = \<lparr>qty = None, designators = None, entry_category = None\<rparr>"

text \<open>The \<open>designator\<close> argument of \<open>_add\<close>: \<open>None\<close>, a list, or one string.\<close>

datatype designator_arg =
    NoDesignator
  | DesignatorList "string list"
  | Designator string

definition startswith :: "string \<Rightarrow> string \<Rightarrow> bool" where
  "startswith s p = (take (length p) s = p)"

text \<open>
  The body of the loop \<open>for des in designator_list\<close>. \<open>AUTOGENERATED_PREFIX\<close> is
  imported from \<open>wv_dataclasses\<close>; it is the parameter \<open>pfx\<close> throughout.
\<close>

definition add_designator :: "string \<Rightarrow> string \<Rightarrow> string set \<Rightarrow> string set" where
  "add_designator pfx des s =
     (if des \<noteq> [] \<and> \<not> startswith des pfx then insert des s else s)"

definition designator_list :: "designator_arg \<Rightarrow> string list" where
  "designator_list d =
     (case d of NoDesignator \<Rightarrow> [] | DesignatorList ds \<Rightarrow> ds | Designator s \<Rightarrow> [s])"

text \<open>The inner function \<open>_add\<close> of \<open>_add_to_internal_bom\<close>.\<close>

definition bom_add ::
  "string \<Rightarrow> string \<Rightarrow> int \<Rightarrow> designator_arg \<Rightarrow> string option \<Rightarrow> bom \<Rightarrow> bom" where
  "bom_add pfx hash q des cat b =
     (let bom_entry = (case b hash of None \<Rightarrow> empty_entry | Some e \<Rightarrow> e);
          q0 = (case qty bom_entry of None \<Rightarrow> 0 | Some v \<Rightarrow> v);
          d0 = (case designators bom_entry of None \<Rightarrow> {} | Some s \<Rightarrow> s)
      in b(hash \<mapsto> \<lparr>qty = Some (q0 + q),
                    designators = Some (fold (add_designator pfx) (designator_list des) d0),
                    entry_category = cat\<rparr>))"

text \<open>
  The branch of \<open>_add_to_internal_bom\<close> for a \<open>TopLevelGraphicalComponent\<close>, after
  \<open>cat\<close> is chosen. \<open>wires\<close> is \<open>item.wire_objects.values()\<close>, which only a cable has.
\<close>

definition add_additional ::
  "string \<Rightarrow> string \<Rightarrow> string \<Rightarrow> AdditionalComponent \<Rightarrow> bom \<Rightarrow> bom" where
  "add_additional pfx cat des cmp b =
     (if ignore_in_bom cmp then b
      else bom_add pfx (bom_hash cmp) (bom_qty cmp) (Designator des)
             (Some (cat @ ''_additional'')) b)"

definition add_top_level ::
  "string \<Rightarrow> string \<Rightarrow> 'a TopLevelGraphicalComponent_scheme \<Rightarrow> Component list option
     \<Rightarrow> bom \<Rightarrow> error + bom" where
  "add_top_level pfx cat t wires b =
     (case (if category t = Some ''bundle''
            then (case wires of
                    None \<Rightarrow> Inl AttributeError
                  | Some ws \<Rightarrow>
                      Inr (fold (\<lambda>subitem. bom_add pfx (bom_hash subitem) (bom_qty t)
                                    (Designator (designator t)) (Some cat)) ws b))
            else Inr (bom_add pfx (bom_hash t) (bom_qty t)
                        (Designator (designator t)) (Some cat) b)) of
        Inl e \<Rightarrow> Inl e
      | Inr b1 \<Rightarrow>
          Inr (fold (add_additional pfx cat (designator t)) (additional_components t) b1))"

fun add_to_internal_bom :: "string \<Rightarrow> item \<Rightarrow> bom \<Rightarrow> error + bom" where
  "add_to_internal_bom pfx (IsConnector c) b =
     (if ignore_in_bom c then Inr b else add_top_level pfx ''connector'' c None b)"
| "add_to_internal_bom pfx (IsCable c) b =
     (if ignore_in_bom c then Inr b
      else add_top_level pfx (if category c = Some ''bundle'' then ''wire'' else ''cable'')
             c (Some (map snd (wire_objects c))) b)"
| "add_to_internal_bom pfx (IsOtherTopLevel t) b =
     (if ignore_in_bom t then Inr b else add_top_level pfx '''' t None b)"
| "add_to_internal_bom pfx (IsAdditionalComponent a) b =
     (if ignore_in_bom a then Inr b
      else Inr (bom_add pfx (bom_hash a) (bom_qty a) NoDesignator (Some ''additional'') b))"
| "add_to_internal_bom pfx (IsOtherComponent x) b =
     (if ignore_in_bom x then Inr b else Inl UnknownItem)"

text \<open>Sequencing of steps that may raise, and a \<open>for\<close> loop that stops at the first exception.\<close>

definition bind_err :: "error + 'a \<Rightarrow> ('a \<Rightarrow> error + 'b) \<Rightarrow> error + 'b" where
  "bind_err m f = (case m of Inl e \<Rightarrow> Inl e | Inr x \<Rightarrow> f x)"

fun for_each :: "('x \<Rightarrow> 's \<Rightarrow> error + 's) \<Rightarrow> 'x list \<Rightarrow> 's \<Rightarrow> error + 's" where
  "for_each f [] s = Inr s"
| "for_each f (x # xs) s = bind_err (f x s) (for_each f xs)"

definition add_items :: "string \<Rightarrow> item list \<Rightarrow> bom \<Rightarrow> error + bom" where
  "add_items pfx xs b = for_each (add_to_internal_bom pfx) xs b"

subsection \<open>The harness\<close>

text \<open>
  The state of a \<open>Harness\<close> after \<open>__post_init__\<close>. The fields \<open>metadata\<close>, \<open>options\<close>
  and \<open>tweak\<close> are only read by the graph and output code and are left out.
\<close>

record Harness =
  connectors :: "(string \<times> Connector) list"
  cables :: "(string \<times> Cable) list"
  mates :: "Mate list"
  bom :: bom
  additional_bom_items :: "AdditionalComponent list"

definition post_init :: Harness where
  "post_init = \<lparr>connectors = [], cables = [], mates = [], bom = Map.empty,
                additional_bom_items = []\<rparr>"

text \<open>
  \<open>populate_bom\<close>: the three iterations over \<open>connectors.values()\<close>, \<open>cables.values()\<close>
  and \<open>additional_bom_items\<close>, each adding to \<open>self.bom\<close> as it stands.
  \<open>print_bom_debug\<close> only prints.
\<close>

definition populate_bom :: "string \<Rightarrow> Harness \<Rightarrow> error + Harness" where
  "populate_bom pfx h =
     bind_err (add_items pfx (map (IsConnector \<circ> snd) (connectors h)) (bom h)) (\<lambda>b1.
     bind_err (add_items pfx (map (IsCable \<circ> snd) (cables h)) b1) (\<lambda>b2.
     bind_err (add_items pfx (map IsAdditionalComponent (additional_bom_items h)) b2) (\<lambda>b3.
     Inr (h\<lparr>bom := b3\<rparr>))))"

subsection \<open>Mates\<close>

text \<open>
  Modelled from the spec: \<open>Connector.activate_pin\<close> is not part of \<open>wv_harness.py\<close>.
  It marks the pin active on the given side, as a real connection or not; the pin is
  looked up in \<open>pin_objects\<close> by its key.
\<close>

definition activate_pin :: "ref \<Rightarrow> Side \<Rightarrow> bool \<Rightarrow> Connector \<Rightarrow> error + Connector" where
  "activate_pin pin side is_connection c =
     (case map_of (pin_objects c) pin of
        None \<Rightarrow> Inl KeyError
      | Some p \<Rightarrow>
          Inr (c\<lparr>pin_objects :=
                 AList.update pin (p\<lparr>activations := activations p @ [(side, is_connection)]\<rparr>)
                   (pin_objects c)\<rparr>))"

text \<open>The statement \<open>self.connectors[name].activate_pin(pin, side, is_connection)\<close>.\<close>

definition activate :: "string \<Rightarrow> ref \<Rightarrow> Side \<Rightarrow> bool \<Rightarrow> Harness \<Rightarrow> error + Harness" where
  "activate name pin side is_connection h =
     (case map_of (connectors h) name of
        None \<Rightarrow> Inl KeyError
      | Some c \<Rightarrow>
          bind_err (activate_pin pin side is_connection c) (\<lambda>c'.
          Inr (h\<lparr>connectors := AList.update name c' (connectors h)\<rparr>)))"

text \<open>The expression \<open>self.connectors[name].pin_objects[pin]\<close>.\<close>

definition pin_object :: "Harness \<Rightarrow> string \<Rightarrow> ref \<Rightarrow> error + PinAt" where
  "pin_object h name pin =
     (case map_of (connectors h) name of
        None \<Rightarrow> Inl KeyError
      | Some con \<Rightarrow>
          (case map_of (pin_objects con) pin of
             None \<Rightarrow> Inl KeyError
           | Some p \<Rightarrow> Inr (PinAt name pin)))"

text \<open>
  \<open>add_mate_pin\<close>. \<open>parse_arrow_str\<close> is imported from \<open>wv_graphviz\<close> and is a
  parameter here.
\<close>

definition add_mate_pin ::
  "(string \<Rightarrow> error + ArrowDirection) \<Rightarrow> Harness \<Rightarrow> string \<Rightarrow> ref \<Rightarrow> string \<Rightarrow> ref \<Rightarrow> string
     \<Rightarrow> error + Harness" where
  "add_mate_pin parse_arrow_str h from_name from_pin to_name to_pin arrow_str =
     bind_err (pin_object h from_name from_pin) (\<lambda>from_pin_obj.
     bind_err (pin_object h to_name to_pin) (\<lambda>to_pin_obj.
     bind_err (parse_arrow_str arrow_str) (\<lambda>d.
     bind_err (activate from_name from_pin RIGHT False
                 (h\<lparr>mates := mates h @ [MatePin from_pin_obj to_pin_obj (Arrow d SINGLE)]\<rparr>))
       (activate to_name to_pin LEFT False))))"

definition add_mate_component ::
  "(string \<Rightarrow> error + ArrowDirection) \<Rightarrow> Harness \<Rightarrow> string \<Rightarrow> string \<Rightarrow> string
     \<Rightarrow> error + Harness" where
  "add_mate_component parse_arrow_str h from_name to_name arrow_str =
     bind_err (parse_arrow_str arrow_str) (\<lambda>d.
     Inr (h\<lparr>mates := mates h @ [MateComponent from_name to_name (Arrow d SINGLE)]\<rparr>))"

subsection \<open>Connections\<close>

text \<open>\<open>list.index\<close>: the first position of a value, \<open>None\<close> where Python raises ValueError.\<close>

fun index :: "'a list \<Rightarrow> 'a \<Rightarrow> nat option" where
  "index [] y = None"
| "index (x # xs) y = (if x = y then Some 0 else map_option Suc (index xs y))"

text \<open>What an f-string prints for a reference: a string as it is, an integer in decimal.\<close>

fun str_of_nat :: "nat \<Rightarrow> string" where
  "str_of_nat n =
     (if n < 10 then [''0123456789'' ! n]
      else str_of_nat (n div 10) @ [''0123456789'' ! (n mod 10)])"

declare str_of_nat.simps [simp del]

definition str_of_ref :: "ref \<Rightarrow> string" where
  "str_of_ref r =
     (case r of
        Str s \<Rightarrow> s
      | Num i \<Rightarrow> (if i < 0 then CHR ''-'' # str_of_nat (nat (- i)) else str_of_nat (nat i)))"

text \<open>
  The body of the loop \<open>for (name, pin) in zip([from_name, to_name], [from_pin, to_pin])\<close>.
  The loop variables \<open>name\<close> and \<open>pin\<close> come from the lists built before the loop; the
  state of the loop is the pair of the local variables \<open>from_pin\<close> and \<open>to_pin\<close>.
\<close>

definition check_pin ::
  "Harness \<Rightarrow> string option \<Rightarrow> string option \<Rightarrow> string option \<times> ref \<Rightarrow> ref \<times> ref
     \<Rightarrow> error + ref \<times> ref" where
  "check_pin h from_name to_name np st =
     (case np of (name, pin) \<Rightarrow> case st of (from_pin, to_pin) \<Rightarrow>
      (case name of
         None \<Rightarrow> Inr (from_pin, to_pin)
       | Some n \<Rightarrow>
          (case map_of (connectors h) n of
             None \<Rightarrow> Inr (from_pin, to_pin)
           | Some connector \<Rightarrow>
               if pin \<in> set (pins connector) \<and> pin \<in> set (pinlabels connector)
                  \<and> index (pins connector) pin \<noteq> index (pinlabels connector) pin
               then Inl (Exception (n @ '':'' @ str_of_ref pin
                      @ '' is defined both in pinlabels and pins, for different pins.''))
               else if pin \<in> set (pinlabels connector)
               then
                 if count_list (pinlabels connector) pin > 1
                 then Inl (Exception (n @ '':'' @ str_of_ref pin @ '' is defined more than once.''))
                 else
                   (case index (pinlabels connector) pin of
                      None \<Rightarrow> Inl ValueError
                    | Some i \<Rightarrow>
                        if i < length (pins connector)
                        then
                          (let pin' = pins connector ! i;
                               from_pin' = (if name = from_name then pin' else from_pin);
                               to_pin' = (if name = to_name then pin' else to_pin)
                           in if pin' \<notin> set (pins connector)
                              then Inl (Exception (n @ '':'' @ str_of_ref pin' @ '' not found.''))
                              else Inr (from_pin', to_pin'))
                        else Inl IndexError)
               else if pin \<notin> set (pins connector)
               then Inl (Exception (n @ '':'' @ str_of_ref pin @ '' not found.''))
               else Inr (from_pin, to_pin))))"

text \<open>The block \<open># check via cable\<close>; its value is the local variable \<open>via_wire\<close>.\<close>

definition check_wire :: "Harness \<Rightarrow> string \<Rightarrow> ref \<Rightarrow> error + ref" where
  "check_wire h via_name via_wire =
     (case map_of (cables h) via_name of
        None \<Rightarrow> Inr via_wire
      | Some cable \<Rightarrow>
          if via_wire \<in> set (colors cable) \<and> via_wire \<in> set (wirelabels cable)
             \<and> index (colors cable) via_wire \<noteq> index (wirelabels cable) via_wire
          then Inl (Exception (via_name @ '':'' @ str_of_ref via_wire
                 @ '' is defined both in colors and wirelabels, for different wires.''))
          else if via_wire \<in> set (colors cable)
          then
            if count_list (colors cable) via_wire > 1
            then Inl (Exception (via_name @ '':'' @ str_of_ref via_wire
                   @ '' is used for more than one wire.''))
            else
              (case index (colors cable) via_wire of
                 None \<Rightarrow> Inl ValueError
               | Some i \<Rightarrow> Inr (Num (int i + 1)))
          else if via_wire \<in> set (wirelabels cable)
          then
            if count_list (wirelabels cable) via_wire > 1
            then Inl (Exception (via_name @ '':'' @ str_of_ref via_wire
                   @ '' is used for more than one wire.''))
            else
              (case index (wirelabels cable) via_wire of
                 None \<Rightarrow> Inl ValueError
               | Some i \<Rightarrow> Inr (Num (int i + 1)))
          else Inr via_wire)"

text \<open>An endpoint of a connection: no pin object where the connector name is \<open>None\<close>.\<close>

definition endpoint :: "Harness \<Rightarrow> string option \<Rightarrow> ref \<Rightarrow> error + PinAt option" where
  "endpoint h name pin =
     (case name of
        None \<Rightarrow> Inr None
      | Some n \<Rightarrow> bind_err (pin_object h n pin) (\<lambda>p. Inr (Some p)))"

text \<open>
  The statement \<open>if name in self.connectors: self.connectors[name].activate_pin(pin, side)\<close>.
  The call leaves \<open>is_connection\<close> to its default; by the spec a pin wired by
  \<open>connect\<close> is a real connection, so the default is \<open>True\<close>.
\<close>

definition activate_if_known :: "string option \<Rightarrow> ref \<Rightarrow> Side \<Rightarrow> Harness \<Rightarrow> error + Harness" where
  "activate_if_known name pin side h =
     (case name of
        None \<Rightarrow> Inr h
      | Some n \<Rightarrow>
          (case map_of (connectors h) n of
             None \<Rightarrow> Inr h
           | Some c \<Rightarrow> activate n pin side True h))"

text \<open>
  The block \<open># perform the actual connection\<close>. \<open>Cable._connect\<close> is not part of
  \<open>wv_harness.py\<close>; it is the parameter \<open>cable_connect\<close>, which returns the cable as
  the call leaves it or the exception it raises.
\<close>

definition perform_connection ::
  "(Cable \<Rightarrow> PinAt option \<Rightarrow> ref \<Rightarrow> PinAt option \<Rightarrow> error + Cable)
     \<Rightarrow> Harness \<Rightarrow> string option \<Rightarrow> ref \<Rightarrow> string \<Rightarrow> ref \<Rightarrow> string option \<Rightarrow> ref
     \<Rightarrow> error + Harness" where
  "perform_connection cable_connect h from_name from_pin via_name via_wire to_name to_pin =
     bind_err (endpoint h from_name from_pin) (\<lambda>from_pin_obj.
     bind_err (endpoint h to_name to_pin) (\<lambda>to_pin_obj.
     (case map_of (cables h) via_name of
        None \<Rightarrow> Inl KeyError
      | Some cable \<Rightarrow>
          bind_err (cable_connect cable from_pin_obj via_wire to_pin_obj) (\<lambda>cable'.
          bind_err (activate_if_known from_name from_pin RIGHT
                      (h\<lparr>cables := AList.update via_name cable' (cables h)\<rparr>))
            (activate_if_known to_name to_pin LEFT)))))"

definition connect ::
  "(Cable \<Rightarrow> PinAt option \<Rightarrow> ref \<Rightarrow> PinAt option \<Rightarrow> error + Cable)
     \<Rightarrow> Harness \<Rightarrow> string option \<Rightarrow> ref \<Rightarrow> string \<Rightarrow> ref \<Rightarrow> string option \<Rightarrow> ref
     \<Rightarrow> error + Harness" where
  "connect cable_connect h from_name from_pin via_name via_wire to_name to_pin =
     bind_err (for_each (check_pin h from_name to_name)
                 (zip [from_name, to_name] [from_pin, to_pin]) (from_pin, to_pin))
       (\<lambda>(from_pin', to_pin').
     bind_err (check_wire h via_name via_wire) (\<lambda>via_wire'.
     perform_connection cable_connect h from_name from_pin' via_name via_wire' to_name to_pin'))"

text \<open>
  Modelled from the spec: \<open>Cable._connect\<close>, which is not part of \<open>wv_harness.py\<close>,
  records the triple of from pin, wire and to pin on the cable's connection list;
  triples with the same wire accumulate.
\<close>

definition Cable_connect :: "Cable \<Rightarrow> PinAt option \<Rightarrow> ref \<Rightarrow> PinAt option \<Rightarrow> error + Cable" where
  "Cable_connect cable from_pin_obj via_wire to_pin_obj =
     Inr (cable\<lparr>connections := connections cable @ [(from_pin_obj, via_wire, to_pin_obj)]\<rparr>)"

subsection \<open>Reading a harness\<close>

text \<open>The connection list of a cable and the activations of a pin, by their keys.\<close>

definition connections_of :: "Harness \<Rightarrow> string \<Rightarrow> (PinAt option \<times> ref \<times> PinAt option) list" where
  "connections_of h via_name =
     (case map_of (cables h) via_name of None \<Rightarrow> [] | Some cable \<Rightarrow> connections cable)"

definition activations_of :: "Harness \<Rightarrow> string \<Rightarrow> ref \<Rightarrow> (Side \<times> bool) list" where
  "activations_of h name pin =
     (case map_of (connectors h) name of
        None \<Rightarrow> []
      | Some c \<Rightarrow> (case map_of (pin_objects c) pin of None \<Rightarrow> [] | Some p \<Rightarrow> activations p))"

subsection \<open>Two small harnesses\<close>

text \<open>
  Connectors \<open>X1\<close> (pins 1 and 2, labels GND and VCC) and \<open>X2\<close> (pins 1 and 2, no
  labels) and the cable \<open>W1\<close> (colors RD and BK) are the harness of the end-to-end
  scenarios. In the second harness \<open>X3\<close> repeats a label, and \<open>X4\<close> and \<open>X5\<close> have
  a value both as a pin and as a label, at different positions and at the same one.
\<close>

definition pin0 :: Pin where "pin0 = \<lparr>activations = []\<rparr>"

definition mk_connector :: "string \<Rightarrow> ref list \<Rightarrow> ref list \<Rightarrow> Connector" where
  "mk_connector d ps ls =
     \<lparr>ignore_in_bom = False, bom_hash = ''connector'', bom_qty = 1, designator = d,
      category = None, additional_components = [],
      pins = ps, pinlabels = ls, pin_objects = map (\<lambda>p. (p, pin0)) ps\<rparr>"

definition W1 :: Cable where
  "W1 = \<lparr>ignore_in_bom = False, bom_hash = ''cable'', bom_qty = 1, designator = ''W1'',
          category = None, additional_components = [],
          colors = [Str ''RD'', Str ''BK''], wirelabels = [],
          wire_objects = [(Num 1, \<lparr>ignore_in_bom = False, bom_hash = ''wire RD'', bom_qty = 1\<rparr>),
                          (Num 2, \<lparr>ignore_in_bom = False, bom_hash = ''wire BK'', bom_qty = 1\<rparr>)],
          connections = []\<rparr>"

definition example_harness :: Harness where
  "example_harness =
     \<lparr>connectors =
        [(''X1'', mk_connector ''X1'' [Num 1, Num 2] [Str ''GND'', Str ''VCC'']),
         (''X2'', mk_connector ''X2'' [Num 1, Num 2] [])],
      cables = [(''W1'', W1)], mates = [], bom = Map.empty, additional_bom_items = []\<rparr>"

definition label_harness :: Harness where
  "label_harness =
     \<lparr>connectors =
        [(''X2'', mk_connector ''X2'' [Num 1, Num 2] []),
         (''X3'', mk_connector ''X3'' [Num 1, Num 2] [Str ''A'', Str ''A'']),
         (''X4'', mk_connector ''X4'' [Str ''A'', Str ''B''] [Str ''B'', Str ''A'']),
         (''X5'', mk_connector ''X5'' [Str ''A'', Str ''B''] [Str ''A'', Str ''C''])],
      cables = [(''W1'', W1)], mates = [], bom = Map.empty, additional_bom_items = []\<rparr>"

text \<open>A stand-in for \<open>parse_arrow_str\<close> in the examples: every string is an arrow without heads.\<close>

definition plain_arrow :: "string \<Rightarrow> error + ArrowDirection" where
  "plain_arrow arrow_str = Inr NONE"

subsection \<open>Reading the BOM mapping\<close>

text \<open>
  The quantity and the designator set of the entry under a key, with the values that
  \<open>_add\<close> takes for a missing entry or a missing field.
\<close>

definition qty_of :: "bom \<Rightarrow> string \<Rightarrow> int" where
  "qty_of b k =
     (case b k of None \<Rightarrow> 0 | Some e \<Rightarrow> (case qty e of None \<Rightarrow> 0 | Some v \<Rightarrow> v))"

definition des_of :: "bom \<Rightarrow> string \<Rightarrow> string set" where
  "des_of b k =
     (case b k of None \<Rightarrow> {} | Some e \<Rightarrow> (case designators e of None \<Rightarrow> {} | Some s \<Rightarrow> s))"


text \<open>Two mappings with the same keys and, under every key, the same quantity and designators.\<close>

definition same_counts :: "bom \<Rightarrow> bom \<Rightarrow> bool" where
  "same_counts b1 b2 =
     (\<forall>k. map_option (\<lambda>e. (qty e, designators e)) (b1 k)
          = map_option (\<lambda>e. (qty e, designators e)) (b2 k))"

text \<open>The designators of an argument of \<open>_add\<close> that pass the test of its loop.\<close>

definition visible :: "string \<Rightarrow> designator_arg \<Rightarrow> string set" where
  "visible pfx d = {x \<in> set (designator_list d). x \<noteq> [] \<and> \<not> startswith x pfx}"

subsection \<open>The calls of \<open>_add\<close> that an item makes\<close>

text \<open>
  The arguments of \<open>_add\<close> do not depend on the BOM mapping, so the calls that
  \<open>_add_to_internal_bom\<close> makes for an item can be listed beforehand, and so can the
  exception it raises. The lemmas \<open>add_to_internal_bom_additions\<close> and
  \<open>add_items_additions\<close> relate the lists to the functions above.
\<close>

type_synonym addition = "string \<times> int \<times> designator_arg \<times> string option"

fun apply_addition :: "string \<Rightarrow> addition \<Rightarrow> bom \<Rightarrow> bom" where
  "apply_addition pfx (k, q, d, cat) b = bom_add pfx k q d cat b"

definition additional_additions :: "string \<Rightarrow> string \<Rightarrow> AdditionalComponent list \<Rightarrow> addition list" where
  "additional_additions cat des cs =
     map (\<lambda>a. (bom_hash a, bom_qty a, Designator des, Some (cat @ ''_additional'')))
       (filter (\<lambda>a. \<not> ignore_in_bom a) cs)"

definition wire_additions :: "'a TopLevelGraphicalComponent_scheme \<Rightarrow> Component list \<Rightarrow> addition list" where
  "wire_additions t ws =
     map (\<lambda>w. (bom_hash w, bom_qty t, Designator (designator t), Some ''wire'')) ws"

definition top_level_additions ::
  "string \<Rightarrow> 'a TopLevelGraphicalComponent_scheme \<Rightarrow> addition list" where
  "top_level_additions cat t =
     (bom_hash t, bom_qty t, Designator (designator t), Some cat)
       # additional_additions cat (designator t) (additional_components t)"

fun additions :: "item \<Rightarrow> addition list" where
  "additions (IsConnector c) =
     (if ignore_in_bom c then [] else top_level_additions ''connector'' c)"
| "additions (IsCable c) =
     (if ignore_in_bom c then []
      else if category c = Some ''bundle''
      then wire_additions c (map snd (wire_objects c))
             @ additional_additions ''wire'' (designator c) (additional_components c)
      else top_level_additions ''cable'' c)"
| "additions (IsOtherTopLevel t) =
     (if ignore_in_bom t then [] else top_level_additions '''' t)"
| "additions (IsAdditionalComponent a) =
     (if ignore_in_bom a then []
      else [(bom_hash a, bom_qty a, NoDesignator, Some ''additional'')])"
| "additions (IsOtherComponent x) = []"

fun item_error :: "item \<Rightarrow> error option" where
  "item_error (IsConnector c) =
     (if \<not> ignore_in_bom c \<and> category c = Some ''bundle'' then Some AttributeError else None)"
| "item_error (IsCable c) = None"
| "item_error (IsOtherTopLevel t) =
     (if \<not> ignore_in_bom t \<and> category t = Some ''bundle'' then Some AttributeError else None)"
| "item_error (IsAdditionalComponent a) = None"
| "item_error (IsOtherComponent x) = (if ignore_in_bom x then None else Some UnknownItem)"

fun first_error :: "item list \<Rightarrow> error option" where
  "first_error [] = None"
| "first_error (x # xs) = (case item_error x of Some e \<Rightarrow> Some e | None \<Rightarrow> first_error xs)"

text \<open>The items that \<open>populate_bom\<close> visits, in its order.\<close>

definition all_items :: "Harness \<Rightarrow> item list" where
  "all_items h =
     map (IsConnector \<circ> snd) (connectors h) @ map (IsCable \<circ> snd) (cables h)
       @ map IsAdditionalComponent (additional_bom_items h)"

text \<open>The sums and unions over the calls of \<open>_add\<close> for one key.\<close>

definition total :: "addition list \<Rightarrow> string \<Rightarrow> int" where
  "total xs k = sum_list (map (\<lambda>a. fst (snd a)) (filter (\<lambda>a. fst a = k) xs))"

definition all_visible :: "string \<Rightarrow> addition list \<Rightarrow> string \<Rightarrow> string set" where
  "all_visible pfx xs k =
     \<Union> ((\<lambda>a. visible pfx (fst (snd (snd a)))) ` set (filter (\<lambda>a. fst a = k) xs))"

definition last_category :: "addition list \<Rightarrow> string \<Rightarrow> string option" where
  "last_category xs k = fold (\<lambda>a r. if fst a = k then snd (snd (snd a)) else r) xs None"

subsection \<open>Items for the BOM examples\<close>

text \<open>
  An example value of the prefix, a harness whose first two connectors carry
  designators with that prefix, and a bundle of two wires.
\<close>

definition example_prefix :: string where
  "example_prefix = ''AUTOGENERATED_''"

definition auto_harness :: Harness where
  "auto_harness =
     \<lparr>connectors =
        [(''AUTOGENERATED_F1'', mk_connector ''AUTOGENERATED_F1'' [Num 1] []),
         (''AUTOGENERATED_F2'', mk_connector ''AUTOGENERATED_F2'' [Num 1] []),
         (''X1'', mk_connector ''X1'' [Num 1] [])],
      cables = [], mates = [], bom = Map.empty, additional_bom_items = []\<rparr>"

definition W2 :: Cable where
  "W2 = \<lparr>ignore_in_bom = False, bom_hash = ''bundle'', bom_qty = 3, designator = ''W2'',
          category = Some ''bundle'', additional_components = [],
          colors = [Str ''RD'', Str ''BK''], wirelabels = [],
          wire_objects = [(Num 1, \<lparr>ignore_in_bom = False, bom_hash = ''wire RD'', bom_qty = 1\<rparr>),
                          (Num 2, \<lparr>ignore_in_bom = False, bom_hash = ''wire BK'', bom_qty = 1\<rparr>)],
          connections = []\<rparr>"

subsection \<open>Quantities that are Python numbers\<close>

text \<open>
  The quantity \<open>bom_qty\<close> above is an integer. Line 107 of the source,
  \<open>bom_entry["qty"] += qty\<close>, adds whatever number the item carries, and the sum of
  floats depends on the order of the additions. This section translates \<open>_add\<close> a
  second time, over Python's numbers: an \<open>int\<close>, or a \<open>float\<close> given by its
  integer mantissa and its binary exponent, so that \<open>FloatNum m e\<close> is the float of
  value \<open>m * 2 ^ e\<close>. The sum of two floats is the exact sum rounded to 53
  significant bits, ties to the even mantissa; the range of the exponent, infinities
  and NaN are left out.
\<close>

datatype number = IntNum int | FloatNum int int

text \<open>The number of low bits to drop so that 53 bits are left.\<close>

function shift_of :: "int \<Rightarrow> nat" where
  "shift_of n = (if n < 2 ^ 53 then 0 else Suc (shift_of (n div 2)))"
  by pat_completeness auto
termination
  by (relation "measure nat") auto

declare shift_of.simps [simp del]

definition round53 :: "int \<Rightarrow> int \<Rightarrow> int \<times> int" where
  "round53 m e =
     (let a = \<bar>m\<bar>;
          s = shift_of a;
          q = a div 2 ^ s;
          r = a mod 2 ^ s;
          q' = (if 2 * r > 2 ^ s \<or> (2 * r = 2 ^ s \<and> odd q) then q + 1 else q)
      in (sgn m * q', e + int s))"

text \<open>The float of a number: \<open>float(i)\<close> for an integer.\<close>

definition as_float :: "number \<Rightarrow> int \<times> int" where
  "as_float x = (case x of IntNum i \<Rightarrow> round53 i 0 | FloatNum m e \<Rightarrow> (m, e))"

definition float_add :: "int \<times> int \<Rightarrow> int \<times> int \<Rightarrow> int \<times> int" where
  "float_add x y =
     (case x of (m1, e1) \<Rightarrow> case y of (m2, e2) \<Rightarrow>
        (let e = min e1 e2
         in round53 (m1 * 2 ^ nat (e1 - e) + m2 * 2 ^ nat (e2 - e)) e))"

text \<open>Python's \<open>+\<close> on numbers: exact on two integers, the float sum otherwise.\<close>

definition num_add :: "number \<Rightarrow> number \<Rightarrow> number" where
  "num_add x y =
     (case (x, y) of
        (IntNum a, IntNum b) \<Rightarrow> IntNum (a + b)
      | _ \<Rightarrow> (case float_add (as_float x) (as_float y) of (m, e) \<Rightarrow> FloatNum m e))"

record num_entry =
  num_qty :: "number option"
  num_designators :: "string set option"
  num_category :: "string option"

type_synonym num_bom = "string \<rightharpoonup> num_entry"

definition empty_num_entry :: num_entry where
  "empty_num_entry = \<lparr>num_qty = None, num_designators = None, num_category = None\<rparr>"

text \<open>The inner function \<open>_add\<close> again, with the quantities as numbers.\<close>

definition bom_add_num ::
  "string \<Rightarrow> string \<Rightarrow> number \<Rightarrow> designator_arg \<Rightarrow> string option \<Rightarrow> num_bom \<Rightarrow> num_bom" where
  "bom_add_num pfx hash q des cat b =
     (let bom_entry = (case b hash of None \<Rightarrow> empty_num_entry | Some e \<Rightarrow> e);
          q0 = (case num_qty bom_entry of None \<Rightarrow> IntNum 0 | Some v \<Rightarrow> v);
          d0 = (case num_designators bom_entry of None \<Rightarrow> {} | Some s \<Rightarrow> s)
      in b(hash \<mapsto> \<lparr>num_qty = Some (num_add q0 q),
                    num_designators = Some (fold (add_designator pfx) (designator_list des) d0),
                    num_category = cat\<rparr>))"

type_synonym num_addition = "string \<times> number \<times> designator_arg \<times> string option"

fun apply_num_addition :: "string \<Rightarrow> num_addition \<Rightarrow> num_bom \<Rightarrow> num_bom" where
  "apply_num_addition pfx (k, q, d, cat) b = bom_add_num pfx k q d cat b"

text \<open>
  The mapping with integer quantities read as a mapping with numbers, and a mapping
  with numbers read without its quantities.
\<close>

definition int_entry :: "bom_entry \<Rightarrow> num_entry" where
  "int_entry e =
     \<lparr>num_qty = map_option IntNum (qty e), num_designators = designators e,
      num_category = entry_category e\<rparr>"

definition int_bom :: "bom \<Rightarrow> num_bom" where
  "int_bom b k = map_option int_entry (b k)"

definition erase_entry :: "num_entry \<Rightarrow> bom_entry" where
  "erase_entry e =
     \<lparr>qty = map_option (\<lambda>q. 0) (num_qty e), designators = num_designators e,
      entry_category = num_category e\<rparr>"

definition erase :: "num_bom \<Rightarrow> bom" where
  "erase b k = map_option erase_entry (b k)"

definition erase_addition :: "num_addition \<Rightarrow> addition" where
  "erase_addition a = (fst a, 0, snd (snd a))"

text \<open>Two mappings with the same keys and, under every key, the same designators.\<close>

definition same_designators :: "num_bom \<Rightarrow> num_bom \<Rightarrow> bool" where
  "same_designators b1 b2 =
     (\<forall>k. map_option num_designators (b1 k) = map_option num_designators (b2 k))"


section \<open>Resolving references in \<open>connect\<close>\<close>

subsection \<open>The steps of the check of one endpoint\<close>

lemma check_pin_not_found:
  "map_of (connectors h) n = Some c \<Longrightarrow> pin \<notin> set (pins c) \<Longrightarrow> pin \<notin> set (pinlabels c) \<Longrightarrow>
   check_pin h fn tn (Some n, pin) st = Inl (Exception (n @ '':'' @ str_of_ref pin @ '' not found.''))"
  by (simp add: check_pin_def split: prod.splits)

lemma connect_from_error:
  "check_pin h (Some n) tn (Some n, pin) (pin, tp) = Inl e \<Longrightarrow>
   connect cc h (Some n) pin via w tn tp = Inl e"
  by (simp add: connect_def bind_err_def)

lemma connect_to_error:
  "check_pin h fn tn (fn, fp) (fp, tp) = Inr st \<Longrightarrow> check_pin h fn tn (tn, tp) st = Inl e \<Longrightarrow>
   connect cc h fn fp via w tn tp = Inl e"
  by (simp add: connect_def bind_err_def)



lemma index_unique:
  "count_list xs x \<le> 1 \<Longrightarrow> i < length xs \<Longrightarrow> xs ! i = x \<Longrightarrow> index xs x = Some i"
proof (induction xs arbitrary: i)
  case Nil
  then show ?case by simp
next
  case (Cons a xs)
  show ?case
  proof (cases "a = x")
    case True
    with Cons.prems(1) have "count_list xs x = 0" by simp
    then have "x \<notin> set xs" by (simp add: count_list_0_iff)
    with Cons.prems(2,3) True have "i = 0" by (cases i) auto
    with True show ?thesis by simp
  next
    case False
    with Cons.prems(3) obtain j where j: "i = Suc j" by (cases i) auto
    with Cons.prems False have "index xs x = Some j"
      by (intro Cons.IH) auto
    with False j show ?thesis by simp
  qed
qed

lemma check_pin_ambiguous:
  "map_of (connectors h) n = Some c \<Longrightarrow> pin \<in> set (pins c) \<Longrightarrow> pin \<in> set (pinlabels c) \<Longrightarrow>
   index (pins c) pin \<noteq> index (pinlabels c) pin \<Longrightarrow>
   check_pin h fn tn (Some n, pin) st
     = Inl (Exception (n @ '':'' @ str_of_ref pin
         @ '' is defined both in pinlabels and pins, for different pins.''))"
  by (simp add: check_pin_def split: prod.splits)

lemma check_pin_duplicate:
  "map_of (connectors h) n = Some c \<Longrightarrow> pin \<in> set (pinlabels c) \<Longrightarrow>
   \<not> (pin \<in> set (pins c) \<and> index (pins c) pin \<noteq> index (pinlabels c) pin) \<Longrightarrow>
   1 < count_list (pinlabels c) pin \<Longrightarrow>
   check_pin h fn tn (Some n, pin) st
     = Inl (Exception (n @ '':'' @ str_of_ref pin @ '' is defined more than once.''))"
  by (auto simp add: check_pin_def split: prod.splits)

lemma check_pin_label:
  assumes "map_of (connectors h) n = Some c"
    and "\<not> (pin \<in> set (pins c) \<and> index (pins c) pin \<noteq> index (pinlabels c) pin)"
    and "count_list (pinlabels c) pin = 1"
    and "i < length (pinlabels c)" and "pinlabels c ! i = pin" and "i < length (pins c)"
  shows "check_pin h fn tn (Some n, pin) (fp, tp)
           = Inr (if Some n = fn then pins c ! i else fp, if Some n = tn then pins c ! i else tp)"
proof -
  have ix: "index (pinlabels c) pin = Some i"
    using assms(3-5) by (intro index_unique) auto
  have mem: "pin \<in> set (pinlabels c)"
    using assms(4,5) by (auto simp: in_set_conv_nth)
  have "pins c ! i \<in> set (pins c)"
    using assms(6) by simp
  with assms(1-3,6) ix mem show ?thesis
    by (auto simp add: check_pin_def Let_def)
qed

lemma check_pin_plain:
  "map_of (connectors h) n = Some c \<Longrightarrow> pin \<in> set (pins c) \<Longrightarrow> pin \<notin> set (pinlabels c) \<Longrightarrow>
   check_pin h fn tn (Some n, pin) st = Inr st"
  by (simp add: check_pin_def split: prod.splits)

lemma connect_checked:
  "check_pin h fn tn (fn, fp) (fp, tp) = Inr st \<Longrightarrow> check_pin h fn tn (tn, tp) st = Inr (fp', tp') \<Longrightarrow>
   connect cc h fn fp via w tn tp
     = bind_err (check_wire h via w) (\<lambda>w'. perform_connection cc h fn fp' via w' tn tp')"
  by (simp add: connect_def bind_err_def)

subsection \<open>The claims about pin references\<close>



text \<open>
  What the check of one endpoint does with a label. A reference that is a pin label
  occurring more than once raises an ambiguity exception (the one for a value that is
  a pin and a label at different positions if that applies, otherwise
  \<open>is defined more than once\<close>), in the check of either endpoint and for the whole
  call when it is the from pin. A reference that is a label occurring exactly once,
  and not a pin at another position, resolves to the pin at the label's position in
  the pin list: the check assigns that pin to both endpoint variables whose connector
  name is the one checked.
\<close>

lemma connect_pin_label:
  assumes "map_of (connectors h) n = Some c" and "pin \<in> set (pinlabels c)"
  shows "(1 < count_list (pinlabels c) pin \<longrightarrow>
            check_pin h fn tn (Some n, pin) st
              = Inl (Exception (n @ '':'' @ str_of_ref pin
                  @ (if pin \<in> set (pins c) \<and> index (pins c) pin \<noteq> index (pinlabels c) pin
                     then '' is defined both in pinlabels and pins, for different pins.''
                     else '' is defined more than once.'')))
          \<and> connect cc h (Some n) pin via w tn tp
              = Inl (Exception (n @ '':'' @ str_of_ref pin
                  @ (if pin \<in> set (pins c) \<and> index (pins c) pin \<noteq> index (pinlabels c) pin
                     then '' is defined both in pinlabels and pins, for different pins.''
                     else '' is defined more than once.''))))
       \<and> (count_list (pinlabels c) pin = 1
            \<and> \<not> (pin \<in> set (pins c) \<and> index (pins c) pin \<noteq> index (pinlabels c) pin) \<longrightarrow>
            (\<forall>i. i < length (pinlabels c) \<and> pinlabels c ! i = pin \<and> i < length (pins c) \<longrightarrow>
               check_pin h fn tn (Some n, pin) (fp, tp)
                 = Inr (if Some n = fn then pins c ! i else fp,
                        if Some n = tn then pins c ! i else tp)))"
proof (intro conjI impI allI)
  assume d: "1 < count_list (pinlabels c) pin"
  show a: "check_pin h fn tn (Some n, pin) st
          = Inl (Exception (n @ '':'' @ str_of_ref pin
              @ (if pin \<in> set (pins c) \<and> index (pins c) pin \<noteq> index (pinlabels c) pin
                 then '' is defined both in pinlabels and pins, for different pins.''
                 else '' is defined more than once.'')))" for fn tn st
  proof (cases "pin \<in> set (pins c) \<and> index (pins c) pin \<noteq> index (pinlabels c) pin")
    case True
    then show ?thesis
      using check_pin_ambiguous [OF assms(1) _ assms(2), of fn tn st] by simp
  next
    case False
    then show ?thesis
      using check_pin_duplicate [OF assms False d, of fn tn st] by simp
  qed
  show "connect cc h (Some n) pin via w tn tp
          = Inl (Exception (n @ '':'' @ str_of_ref pin
              @ (if pin \<in> set (pins c) \<and> index (pins c) pin \<noteq> index (pinlabels c) pin
                 then '' is defined both in pinlabels and pins, for different pins.''
                 else '' is defined more than once.'')))"
    using a by (rule connect_from_error)
next
  fix i
  assume u: "count_list (pinlabels c) pin = 1
      \<and> \<not> (pin \<in> set (pins c) \<and> index (pins c) pin \<noteq> index (pinlabels c) pin)"
    and i: "i < length (pinlabels c) \<and> pinlabels c ! i = pin \<and> i < length (pins c)"
  show "check_pin h fn tn (Some n, pin) (fp, tp)
          = Inr (if Some n = fn then pins c ! i else fp, if Some n = tn then pins c ! i else tp)"
    using check_pin_label [OF assms(1), of pin i fn tn fp tp] u i by blast
qed

lemma connect_pin_label_example:
  "map_of (connectors label_harness) ''X3''
       = Some (mk_connector ''X3'' [Num 1, Num 2] [Str ''A'', Str ''A''])
   \<and> 1 < count_list [Str ''A'', Str ''A''] (Str ''A'')
   \<and> connect Cable_connect label_harness (Some ''X3'') (Str ''A'') ''W1'' (Str ''RD'')
         (Some ''X2'') (Num 1)
       = Inl (Exception ''X3:A is defined more than once.'')
   \<and> map_of (connectors example_harness) ''X1''
       = Some (mk_connector ''X1'' [Num 1, Num 2] [Str ''GND'', Str ''VCC''])
   \<and> count_list [Str ''GND'', Str ''VCC''] (Str ''VCC'') = 1
   \<and> [Str ''GND'', Str ''VCC''] ! 1 = Str ''VCC''
   \<and> check_pin example_harness (Some ''X1'') (Some ''X2'') (Some ''X1'', Str ''VCC'')
         (Str ''VCC'', Num 1)
       = Inr (Num 2, Num 1)"
proof -
  let ?c3 = "mk_connector ''X3'' [Num 1, Num 2] [Str ''A'', Str ''A'']"
  let ?c1 = "mk_connector ''X1'' [Num 1, Num 2] [Str ''GND'', Str ''VCC'']"
  have c3: "map_of (connectors label_harness) ''X3'' = Some ?c3"
    and c1: "map_of (connectors example_harness) ''X1'' = Some ?c1"
    by (simp_all add: example_harness_def label_harness_def)
  have m3: "Str ''A'' \<in> set (pinlabels ?c3)" and m1: "Str ''VCC'' \<in> set (pinlabels ?c1)"
    by (simp_all add: mk_connector_def)
  from connect_pin_label [OF c3 m3, where cc = Cable_connect and via = "''W1''"
      and w = "Str ''RD''" and tn = "Some ''X2''" and tp = "Num 1"]
    connect_pin_label [OF c1 m1, where fn = "Some ''X1''" and tn = "Some ''X2''"
      and fp = "Str ''VCC''" and tp = "Num 1", THEN conjunct2, rule_format, of 1] c3 c1
  show ?thesis by (simp add: mk_connector_def str_of_ref_def)
qed

text \<open>
  Claim C5. For one endpoint the claim holds, as shown above. For a whole call its
  second half fails when both names are the same connector, because the check
  assigns the resolved pin by the connector's name and not by the endpoint: in
  \<open>connect("X1", "VCC", "W1", "BK", "X1", "GND")\<close> the label \<open>VCC\<close> occurs once, at
  position 1, where the pin list has pin 2, but the check of the to endpoint assigns
  pin 1 to the from pin as well. Whatever \<open>Cable._connect\<close> does, the connection is
  performed with pin 1 at both ends; with \<open>_connect\<close> recording the triple, the
  connection list of \<open>W1\<close> holds pin 1 twice, and pin 2 is never activated.
\<close>

theorem connect_label_overwritten:
  "count_list (pinlabels (mk_connector ''X1'' [Num 1, Num 2] [Str ''GND'', Str ''VCC''])) (Str ''VCC'') = 1
   \<and> index (pinlabels (mk_connector ''X1'' [Num 1, Num 2] [Str ''GND'', Str ''VCC''])) (Str ''VCC'')
       = Some 1
   \<and> pins (mk_connector ''X1'' [Num 1, Num 2] [Str ''GND'', Str ''VCC'']) ! 1 = Num 2
   \<and> connect cable_connect example_harness (Some ''X1'') (Str ''VCC'') ''W1'' (Str ''BK'')
         (Some ''X1'') (Str ''GND'')
       = perform_connection cable_connect example_harness (Some ''X1'') (Num 1) ''W1'' (Num 2)
           (Some ''X1'') (Num 1)
   \<and> connect Cable_connect example_harness (Some ''X1'') (Str ''VCC'') ''W1'' (Str ''BK'')
         (Some ''X1'') (Str ''GND'')
       = Inr (example_harness
           \<lparr>connectors :=
              [(''X1'', (mk_connector ''X1'' [Num 1, Num 2] [Str ''GND'', Str ''VCC''])
                  \<lparr>pin_objects := [(Num 1, \<lparr>activations = [(RIGHT, True), (LEFT, True)]\<rparr>),
                                    (Num 2, \<lparr>activations = []\<rparr>)]\<rparr>),
               (''X2'', mk_connector ''X2'' [Num 1, Num 2] [])],
            cables :=
              [(''W1'', W1\<lparr>connections :=
                  [(Some (PinAt ''X1'' (Num 1)), Num 2, Some (PinAt ''X1'' (Num 1)))]\<rparr>)]\<rparr>)"
proof -
  have a: "check_pin example_harness (Some ''X1'') (Some ''X1'') (Some ''X1'', Str ''VCC'')
             (Str ''VCC'', Str ''GND'') = Inr (Num 2, Num 2)"
    and b: "check_pin example_harness (Some ''X1'') (Some ''X1'') (Some ''X1'', Str ''GND'')
             (Num 2, Num 2) = Inr (Num 1, Num 1)"
    and w: "check_wire example_harness ''W1'' (Str ''BK'') = Inr (Num 2)"
    by (simp_all add: check_pin_def check_wire_def example_harness_def mk_connector_def W1_def
        Let_def)
  have g: "connect cable_connect example_harness (Some ''X1'') (Str ''VCC'') ''W1'' (Str ''BK'')
         (Some ''X1'') (Str ''GND'')
       = perform_connection cable_connect example_harness (Some ''X1'') (Num 1) ''W1'' (Num 2)
           (Some ''X1'') (Num 1)" for cable_connect
    using connect_checked [OF a b] w by (simp add: bind_err_def)
  have p: "perform_connection Cable_connect example_harness (Some ''X1'') (Num 1) ''W1'' (Num 2)
           (Some ''X1'') (Num 1)
       = Inr (example_harness
           \<lparr>connectors :=
              [(''X1'', (mk_connector ''X1'' [Num 1, Num 2] [Str ''GND'', Str ''VCC''])
                  \<lparr>pin_objects := [(Num 1, \<lparr>activations = [(RIGHT, True), (LEFT, True)]\<rparr>),
                                    (Num 2, \<lparr>activations = []\<rparr>)]\<rparr>),
               (''X2'', mk_connector ''X2'' [Num 1, Num 2] [])],
            cables :=
              [(''W1'', W1\<lparr>connections :=
                  [(Some (PinAt ''X1'' (Num 1)), Num 2, Some (PinAt ''X1'' (Num 1)))]\<rparr>)]\<rparr>)"
    by (simp add: perform_connection_def endpoint_def pin_object_def activate_if_known_def
        activate_def activate_pin_def Cable_connect_def bind_err_def example_harness_def
        mk_connector_def W1_def pin0_def)
  show ?thesis
    using g p by (simp add: mk_connector_def)
qed

text \<open>
  Claim C6. In \<open>connect\<close> on a registered connector, a pin reference that is neither
  in the connector's pin list nor in its pin-label list raises an exception whose
  message is the connector's designator, a colon, the reference as written, and
  \<open>not found.\<close> This holds for the check of either endpoint, for the whole call when
  the reference is the from pin, and for the whole call when it is the to pin and the
  check of the from endpoint has passed. The witness is the call
  \<open>connect("X1", "BOGUS", "W1", "RD", "X2", 1)\<close> of the end-to-end scenario, and the
  same reference as the to pin.
\<close>

theorem connect_pin_not_found:
  assumes "map_of (connectors h) n = Some c"
    and "pin \<notin> set (pins c)" and "pin \<notin> set (pinlabels c)"
  shows "check_pin h fn tn (Some n, pin) st
           = Inl (Exception (n @ '':'' @ str_of_ref pin @ '' not found.''))
       \<and> connect cc h (Some n) pin via w tn tp
           = Inl (Exception (n @ '':'' @ str_of_ref pin @ '' not found.''))
       \<and> (\<forall>st'. check_pin h fn (Some n) (fn, fp) (fp, pin) = Inr st' \<longrightarrow>
            connect cc h fn fp via w (Some n) pin
              = Inl (Exception (n @ '':'' @ str_of_ref pin @ '' not found.'')))"
proof -
  have nf: "\<And>fn tn st. check_pin h fn tn (Some n, pin) st
              = Inl (Exception (n @ '':'' @ str_of_ref pin @ '' not found.''))"
    using assms by (rule check_pin_not_found)
  show ?thesis
    using nf connect_from_error [OF nf] connect_to_error [OF _ nf] by blast
qed

theorem connect_pin_not_found_witness:
  "map_of (connectors example_harness) ''X1''
       = Some (mk_connector ''X1'' [Num 1, Num 2] [Str ''GND'', Str ''VCC''])
   \<and> Str ''BOGUS'' \<notin> set (pins (mk_connector ''X1'' [Num 1, Num 2] [Str ''GND'', Str ''VCC'']))
   \<and> Str ''BOGUS'' \<notin> set (pinlabels (mk_connector ''X1'' [Num 1, Num 2] [Str ''GND'', Str ''VCC'']))
   \<and> connect Cable_connect example_harness (Some ''X1'') (Str ''BOGUS'') ''W1'' (Str ''RD'')
        (Some ''X2'') (Num 1) = Inl (Exception ''X1:BOGUS not found.'')
   \<and> check_pin example_harness (Some ''X2'') (Some ''X1'') (Some ''X2'', Num 1) (Num 1, Str ''BOGUS'')
        = Inr (Num 1, Str ''BOGUS'')
   \<and> connect Cable_connect example_harness (Some ''X2'') (Num 1) ''W1'' (Str ''RD'')
        (Some ''X1'') (Str ''BOGUS'') = Inl (Exception ''X1:BOGUS not found.'')"
proof -
  let ?c = "mk_connector ''X1'' [Num 1, Num 2] [Str ''GND'', Str ''VCC'']"
  have c: "map_of (connectors example_harness) ''X1'' = Some ?c"
    by (simp add: example_harness_def)
  have p: "Str ''BOGUS'' \<notin> set (pins ?c)" and l: "Str ''BOGUS'' \<notin> set (pinlabels ?c)"
    by (simp_all add: mk_connector_def)
  have f: "check_pin example_harness (Some ''X2'') (Some ''X1'') (Some ''X2'', Num 1)
             (Num 1, Str ''BOGUS'') = Inr (Num 1, Str ''BOGUS'')"
    by (simp add: check_pin_def example_harness_def mk_connector_def)
  from connect_pin_not_found [OF c p l, where fn = "Some ''X2''" and tn = "Some ''X2''"
      and st = "(Num 1, Num 1)" and cc = Cable_connect and via = "''W1''" and w = "Str ''RD''"
      and tp = "Num 1" and fp = "Num 1"] f c p l
  show ?thesis by (simp add: str_of_ref_def)
qed

text \<open>
  Claim C10, as amended. When \<open>from_name\<close> and \<open>to_name\<close> are the same registered
  connector and \<open>from_pin\<close> is a label that occurs once (and is not a pin at another
  position), the check of the from endpoint assigns the from pin's number to both
  \<open>from_pin\<close> and \<open>to_pin\<close>. The loop still checks the caller's original \<open>to_pin\<close>,
  which it took from the list built before the loop:
  \<^item> if the original \<open>to_pin\<close> is a pin number and not a label, the connection is
    performed with the from pin's number at both ends;
  \<^item> if it is neither a pin nor a label, the call raises \<open>not found\<close> for it;
  \<^item> if it is itself a label that occurs once, and not a pin at another position,
    both variables are assigned again and the connection is performed with the to
    pin's number at both ends.
\<close>

theorem connect_same_connector:
  assumes "map_of (connectors h) n = Some c"
    and "i < length (pinlabels c)" and "pinlabels c ! i = from_pin" and "i < length (pins c)"
    and "count_list (pinlabels c) from_pin = 1"
    and "\<not> (from_pin \<in> set (pins c) \<and> index (pins c) from_pin \<noteq> index (pinlabels c) from_pin)"
  shows "check_pin h (Some n) (Some n) (Some n, from_pin) (from_pin, to_pin)
           = Inr (pins c ! i, pins c ! i)
       \<and> (to_pin \<in> set (pins c) \<and> to_pin \<notin> set (pinlabels c) \<longrightarrow>
            connect cc h (Some n) from_pin via w (Some n) to_pin
              = bind_err (check_wire h via w) (\<lambda>w'.
                  perform_connection cc h (Some n) (pins c ! i) via w' (Some n) (pins c ! i)))
       \<and> (to_pin \<notin> set (pins c) \<and> to_pin \<notin> set (pinlabels c) \<longrightarrow>
            connect cc h (Some n) from_pin via w (Some n) to_pin
              = Inl (Exception (n @ '':'' @ str_of_ref to_pin @ '' not found.'')))
       \<and> (\<forall>j. j < length (pinlabels c) \<and> pinlabels c ! j = to_pin \<and> j < length (pins c)
              \<and> count_list (pinlabels c) to_pin = 1
              \<and> \<not> (to_pin \<in> set (pins c) \<and> index (pins c) to_pin \<noteq> index (pinlabels c) to_pin) \<longrightarrow>
            connect cc h (Some n) from_pin via w (Some n) to_pin
              = bind_err (check_wire h via w) (\<lambda>w'.
                  perform_connection cc h (Some n) (pins c ! j) via w' (Some n) (pins c ! j)))"
proof -
  have first: "check_pin h (Some n) (Some n) (Some n, from_pin) (from_pin, to_pin)
                 = Inr (pins c ! i, pins c ! i)"
    using check_pin_label [OF assms(1,6,5,2,3,4), of "Some n" "Some n" from_pin to_pin] by simp
  have plain: "connect cc h (Some n) from_pin via w (Some n) to_pin
              = bind_err (check_wire h via w) (\<lambda>w'.
                  perform_connection cc h (Some n) (pins c ! i) via w' (Some n) (pins c ! i))"
    if "to_pin \<in> set (pins c) \<and> to_pin \<notin> set (pinlabels c)"
    using connect_checked [OF first] check_pin_plain [OF assms(1), of to_pin] that by simp
  have missing: "connect cc h (Some n) from_pin via w (Some n) to_pin
              = Inl (Exception (n @ '':'' @ str_of_ref to_pin @ '' not found.''))"
    if "to_pin \<notin> set (pins c) \<and> to_pin \<notin> set (pinlabels c)"
    using connect_to_error [OF first] check_pin_not_found [OF assms(1), of to_pin] that by simp
  have label: "connect cc h (Some n) from_pin via w (Some n) to_pin
              = bind_err (check_wire h via w) (\<lambda>w'.
                  perform_connection cc h (Some n) (pins c ! j) via w' (Some n) (pins c ! j))"
    if "j < length (pinlabels c) \<and> pinlabels c ! j = to_pin \<and> j < length (pins c)
              \<and> count_list (pinlabels c) to_pin = 1
              \<and> \<not> (to_pin \<in> set (pins c) \<and> index (pins c) to_pin \<noteq> index (pinlabels c) to_pin)" for j
  proof -
    have "check_pin h (Some n) (Some n) (Some n, to_pin) (pins c ! i, pins c ! i)
            = Inr (pins c ! j, pins c ! j)"
      using check_pin_label [OF assms(1), of to_pin j "Some n" "Some n"] that by simp
    then show ?thesis using connect_checked [OF first] by simp
  qed
  show ?thesis using first plain missing label by blast
qed

theorem connect_same_connector_witness:
  "connect Cable_connect example_harness (Some ''X1'') (Str ''GND'') ''W1'' (Str ''RD'')
       (Some ''X1'') (Num 2)
     = bind_err (check_wire example_harness ''W1'' (Str ''RD'')) (\<lambda>w'.
         perform_connection Cable_connect example_harness (Some ''X1'') (Num 1) ''W1'' w'
           (Some ''X1'') (Num 1))
   \<and> connect Cable_connect example_harness (Some ''X1'') (Str ''GND'') ''W1'' (Str ''RD'')
       (Some ''X1'') (Str ''NC'')
     = Inl (Exception ''X1:NC not found.'')
   \<and> connect Cable_connect example_harness (Some ''X1'') (Str ''GND'') ''W1'' (Str ''RD'')
       (Some ''X1'') (Str ''VCC'')
     = bind_err (check_wire example_harness ''W1'' (Str ''RD'')) (\<lambda>w'.
         perform_connection Cable_connect example_harness (Some ''X1'') (Num 2) ''W1'' w'
           (Some ''X1'') (Num 2))"
proof -
  let ?c = "mk_connector ''X1'' [Num 1, Num 2] [Str ''GND'', Str ''VCC'']"
  have c: "map_of (connectors example_harness) ''X1'' = Some ?c"
    by (simp add: example_harness_def)
  have i: "0 < length (pinlabels ?c)" "pinlabels ?c ! 0 = Str ''GND''" "0 < length (pins ?c)"
    "count_list (pinlabels ?c) (Str ''GND'') = 1"
    "\<not> (Str ''GND'' \<in> set (pins ?c)
        \<and> index (pins ?c) (Str ''GND'') \<noteq> index (pinlabels ?c) (Str ''GND''))"
    by (simp_all add: mk_connector_def)
  note t = connect_same_connector [OF c i, where cc = Cable_connect and via = "''W1''"
      and w = "Str ''RD''"]
  from t [where to_pin = "Num 2"] t [where to_pin = "Str ''NC''"]
    t [where to_pin = "Str ''VCC''", THEN conjunct2, THEN conjunct2, THEN conjunct2,
       rule_format, of 1]
  show ?thesis by (simp add: mk_connector_def str_of_ref_def)
qed

text \<open>
  The claim as stated fails for \<open>connect("X1", "GND", "W1", "RD", "X1", "VCC")\<close>: after
  the first endpoint both variables are pin 1, the from pin, but the recorded
  connection and both activations are at pin 2, the to pin.
\<close>

theorem connect_same_connector_counterexample:
  "check_pin example_harness (Some ''X1'') (Some ''X1'') (Some ''X1'', Str ''GND'')
       (Str ''GND'', Str ''VCC'') = Inr (Num 1, Num 1)
   \<and> connect Cable_connect example_harness (Some ''X1'') (Str ''GND'') ''W1'' (Str ''RD'')
       (Some ''X1'') (Str ''VCC'')
     = Inr (example_harness
         \<lparr>connectors :=
            [(''X1'', (mk_connector ''X1'' [Num 1, Num 2] [Str ''GND'', Str ''VCC''])
                \<lparr>pin_objects := [(Num 1, \<lparr>activations = []\<rparr>),
                                  (Num 2, \<lparr>activations = [(RIGHT, True), (LEFT, True)]\<rparr>)]\<rparr>),
             (''X2'', mk_connector ''X2'' [Num 1, Num 2] [])],
          cables :=
            [(''W1'', W1\<lparr>connections :=
                [(Some (PinAt ''X1'' (Num 2)), Num 1, Some (PinAt ''X1'' (Num 2)))]\<rparr>)]\<rparr>)"
  by (simp add: connect_def check_pin_def check_wire_def perform_connection_def endpoint_def
      pin_object_def activate_if_known_def activate_def activate_pin_def Cable_connect_def
      bind_err_def example_harness_def mk_connector_def W1_def pin0_def Let_def)

subsection \<open>The wire reference\<close>

text \<open>
  Claim C3. The block that checks the wire reference has no last step that raises
  \<open>not found\<close>, unlike the loop over the pins. For the harness of the end-to-end
  scenario, \<open>connect("X1", "GND", "W1", "BOGUS", "X2", 1)\<close> names a wire that is
  neither a color nor a wire label of \<open>W1\<close>: the check returns the reference
  unchanged and \<open>connect\<close> hands it to \<open>Cable._connect\<close>. Whatever \<open>_connect\<close> does,
  the call raises an exception exactly when \<open>_connect\<close> raises it for the reference
  \<open>BOGUS\<close>; with \<open>_connect\<close> recording the triple the call succeeds and the
  connection list of \<open>W1\<close> holds the wire \<open>BOGUS\<close>.
\<close>

theorem connect_unknown_wire:
  "check_wire example_harness ''W1'' (Str ''BOGUS'') = Inr (Str ''BOGUS'')
   \<and> (\<forall>e. (connect cable_connect example_harness (Some ''X1'') (Str ''GND'') ''W1''
               (Str ''BOGUS'') (Some ''X2'') (Num 1) = Inl e)
           = (cable_connect W1 (Some (PinAt ''X1'' (Num 1))) (Str ''BOGUS'')
               (Some (PinAt ''X2'' (Num 1))) = Inl e))
   \<and> connect Cable_connect example_harness (Some ''X1'') (Str ''GND'') ''W1'' (Str ''BOGUS'')
       (Some ''X2'') (Num 1)
     = Inr (example_harness
         \<lparr>connectors :=
            [(''X1'', (mk_connector ''X1'' [Num 1, Num 2] [Str ''GND'', Str ''VCC''])
                \<lparr>pin_objects := [(Num 1, \<lparr>activations = [(RIGHT, True)]\<rparr>),
                                  (Num 2, \<lparr>activations = []\<rparr>)]\<rparr>),
             (''X2'', (mk_connector ''X2'' [Num 1, Num 2] [])
                \<lparr>pin_objects := [(Num 1, \<lparr>activations = [(LEFT, True)]\<rparr>),
                                  (Num 2, \<lparr>activations = []\<rparr>)]\<rparr>)],
          cables :=
            [(''W1'', W1\<lparr>connections :=
                [(Some (PinAt ''X1'' (Num 1)), Str ''BOGUS'', Some (PinAt ''X2'' (Num 1)))]\<rparr>)]\<rparr>)"
  by (simp add: connect_def check_pin_def check_wire_def perform_connection_def endpoint_def
      pin_object_def activate_if_known_def activate_def activate_pin_def Cable_connect_def
      bind_err_def example_harness_def mk_connector_def W1_def pin0_def Let_def
      split: sum.splits)

section \<open>Pin-level mates\<close>

lemma pin_object_Inr:
  "pin_object h n p = Inr x \<Longrightarrow>
   \<exists>c q. map_of (connectors h) n = Some c \<and> map_of (pin_objects c) p = Some q \<and> x = PinAt n p"
  by (auto simp add: pin_object_def split: option.splits)

lemma activate_ok:
  assumes "pin_object h name pin = Inr x"
  shows "\<exists>h'. activate name pin side b h = Inr h'
           \<and> mates h' = mates h \<and> cables h' = cables h \<and> bom h' = bom h
           \<and> additional_bom_items h' = additional_bom_items h
           \<and> (\<forall>n q. pin_object h' n q = pin_object h n q)
           \<and> (\<forall>n q. activations_of h' n q
                 = activations_of h n q @ (if n = name \<and> q = pin then [(side, b)] else []))"
proof -
  from pin_object_Inr [OF assms] obtain c p
    where c: "map_of (connectors h) name = Some c" and p: "map_of (pin_objects c) pin = Some p"
    by blast
  let ?p = "p\<lparr>activations := activations p @ [(side, b)]\<rparr>"
  let ?c = "c\<lparr>pin_objects := AList.update pin ?p (pin_objects c)\<rparr>"
  let ?h = "h\<lparr>connectors := AList.update name ?c (connectors h)\<rparr>"
  have r: "activate name pin side b h = Inr ?h"
    using c p by (simp add: activate_def activate_pin_def bind_err_def)
  have po: "pin_object ?h n q = pin_object h n q" for n q
    using c p by (simp add: pin_object_def update_conv' split: option.splits)
  have ac: "activations_of ?h n q
      = activations_of h n q @ (if n = name \<and> q = pin then [(side, b)] else [])" for n q
    using c p by (simp add: activations_of_def update_conv' split: option.splits)
  show ?thesis using r po ac by simp
qed

text \<open>
  Claim C1, as amended. \<open>add_mate_pin\<close> does not resolve its pin references: it
  looks each one up as a key of the named connector's \<open>pin_objects\<close>, the from
  endpoint first, and the failure of a lookup is the failure of the call. When both
  lookups succeed and the arrow string parses, a pin-level mate of the two pin objects
  is appended to the mates, the from pin gets the activation (right, not a
  connection), then the to pin gets the activation (left, not a connection), and no
  other pin's activations change.
\<close>

theorem add_mate_pin_direct:
  "(\<forall>e. pin_object h from_name from_pin = Inl e \<longrightarrow>
      add_mate_pin parse_arrow_str h from_name from_pin to_name to_pin arrow_str = Inl e)
   \<and> (\<forall>x e. pin_object h from_name from_pin = Inr x \<and> pin_object h to_name to_pin = Inl e \<longrightarrow>
      add_mate_pin parse_arrow_str h from_name from_pin to_name to_pin arrow_str = Inl e)
   \<and> (\<forall>x y d. pin_object h from_name from_pin = Inr x \<and> pin_object h to_name to_pin = Inr y
         \<and> parse_arrow_str arrow_str = Inr d \<longrightarrow>
      (\<exists>h'. add_mate_pin parse_arrow_str h from_name from_pin to_name to_pin arrow_str = Inr h'
         \<and> mates h' = mates h @ [MatePin (PinAt from_name from_pin) (PinAt to_name to_pin)
                                    (Arrow d SINGLE)]
         \<and> cables h' = cables h
         \<and> (\<forall>n q. activations_of h' n q
               = activations_of h n q
                 @ (if n = from_name \<and> q = from_pin then [(RIGHT, False)] else [])
                 @ (if n = to_name \<and> q = to_pin then [(LEFT, False)] else []))))"
proof (intro conjI allI impI)
  fix e assume "pin_object h from_name from_pin = Inl e"
  then show "add_mate_pin parse_arrow_str h from_name from_pin to_name to_pin arrow_str = Inl e"
    by (simp add: add_mate_pin_def bind_err_def)
next
  fix x e assume "pin_object h from_name from_pin = Inr x \<and> pin_object h to_name to_pin = Inl e"
  then show "add_mate_pin parse_arrow_str h from_name from_pin to_name to_pin arrow_str = Inl e"
    by (simp add: add_mate_pin_def bind_err_def)
next
  fix x y d
  assume a: "pin_object h from_name from_pin = Inr x \<and> pin_object h to_name to_pin = Inr y
         \<and> parse_arrow_str arrow_str = Inr d"
  then have x: "x = PinAt from_name from_pin" and y: "y = PinAt to_name to_pin"
    using pin_object_Inr by blast+
  let ?m = "MatePin (PinAt from_name from_pin) (PinAt to_name to_pin) (Arrow d SINGLE)"
  let ?h0 = "h\<lparr>mates := mates h @ [?m]\<rparr>"
  have f0: "pin_object ?h0 from_name from_pin = Inr x" and t0: "pin_object ?h0 to_name to_pin = Inr y"
    using a by (simp_all add: pin_object_def)
  have a0: "activations_of ?h0 n q = activations_of h n q" for n q
    by (simp add: activations_of_def)
  from activate_ok [OF f0, of RIGHT False] obtain h1
    where h1: "activate from_name from_pin RIGHT False ?h0 = Inr h1"
      "mates h1 = mates ?h0" "cables h1 = cables ?h0"
      "\<And>n q. pin_object h1 n q = pin_object ?h0 n q"
      "\<And>n q. activations_of h1 n q
         = activations_of ?h0 n q @ (if n = from_name \<and> q = from_pin then [(RIGHT, False)] else [])"
    by blast
  have t1: "pin_object h1 to_name to_pin = Inr y" using h1(4) t0 by simp
  from activate_ok [OF t1, of LEFT False] obtain h2
    where h2: "activate to_name to_pin LEFT False h1 = Inr h2"
      "mates h2 = mates h1" "cables h2 = cables h1"
      "\<And>n q. activations_of h2 n q
         = activations_of h1 n q @ (if n = to_name \<and> q = to_pin then [(LEFT, False)] else [])"
    by blast
  have "add_mate_pin parse_arrow_str h from_name from_pin to_name to_pin arrow_str = Inr h2"
    using a x y h1(1) h2(1) by (simp add: add_mate_pin_def bind_err_def)
  moreover have "mates h2 = mates h @ [?m]" using h1(2) h2(2) by simp
  moreover have "cables h2 = cables h" using h1(3) h2(3) by simp
  moreover have "activations_of h2 n q
               = activations_of h n q
                 @ (if n = from_name \<and> q = from_pin then [(RIGHT, False)] else [])
                 @ (if n = to_name \<and> q = to_pin then [(LEFT, False)] else [])" for n q
    using h1(5) [of n q] h2(4) [of n q] a0 [of n q] by simp
  ultimately show "\<exists>h'. add_mate_pin parse_arrow_str h from_name from_pin to_name to_pin arrow_str = Inr h'
         \<and> mates h' = mates h @ [?m]
         \<and> cables h' = cables h
         \<and> (\<forall>n q. activations_of h' n q
               = activations_of h n q
                 @ (if n = from_name \<and> q = from_pin then [(RIGHT, False)] else [])
                 @ (if n = to_name \<and> q = to_pin then [(LEFT, False)] else []))"
    by blast
qed

theorem add_mate_pin_direct_witness:
  "pin_object example_harness ''X1'' (Str ''GND'') = Inl KeyError
   \<and> add_mate_pin plain_arrow example_harness ''X1'' (Str ''GND'') ''X2'' (Num 1) ''--''
       = Inl KeyError
   \<and> pin_object example_harness ''X1'' (Num 1) = Inr (PinAt ''X1'' (Num 1))
   \<and> pin_object example_harness ''X2'' (Num 3) = Inl KeyError
   \<and> add_mate_pin plain_arrow example_harness ''X1'' (Num 1) ''X2'' (Num 3) ''--''
       = Inl KeyError
   \<and> pin_object example_harness ''X2'' (Num 1) = Inr (PinAt ''X2'' (Num 1))
   \<and> plain_arrow ''--'' = Inr NONE
   \<and> (\<exists>h'. add_mate_pin plain_arrow example_harness ''X1'' (Num 1) ''X2'' (Num 1) ''--'' = Inr h'
         \<and> mates h' = [MatePin (PinAt ''X1'' (Num 1)) (PinAt ''X2'' (Num 1)) (Arrow NONE SINGLE)]
         \<and> activations_of h' ''X1'' (Num 1) = [(RIGHT, False)]
         \<and> activations_of h' ''X2'' (Num 1) = [(LEFT, False)]
         \<and> activations_of h' ''X1'' (Num 2) = [])"
proof -
  have a: "pin_object example_harness ''X1'' (Str ''GND'') = Inl KeyError"
    and b: "pin_object example_harness ''X1'' (Num 1) = Inr (PinAt ''X1'' (Num 1))"
    and c: "pin_object example_harness ''X2'' (Num 3) = Inl KeyError"
    and d: "pin_object example_harness ''X2'' (Num 1) = Inr (PinAt ''X2'' (Num 1))"
    and e: "plain_arrow ''--'' = Inr NONE"
    by (simp_all add: pin_object_def example_harness_def mk_connector_def plain_arrow_def)
  have m: "mates example_harness = []"
    and z: "activations_of example_harness ''X1'' (Num 1) = []"
      "activations_of example_harness ''X2'' (Num 1) = []"
      "activations_of example_harness ''X1'' (Num 2) = []"
    by (simp_all add: activations_of_def example_harness_def mk_connector_def pin0_def)
  note t = add_mate_pin_direct [where h = example_harness and parse_arrow_str = plain_arrow
      and arrow_str = "''--''" and from_name = "''X1''" and to_name = "''X2''"]
  from t [where from_pin = "Str ''GND''" and to_pin = "Num 1"]
    t [where from_pin = "Num 1" and to_pin = "Num 3"]
    t [where from_pin = "Num 1" and to_pin = "Num 1"] a b c d e m z
  show ?thesis by fastforce
qed

text \<open>
  The claim as stated fails in both directions. The label \<open>GND\<close> of \<open>X1\<close>, which
  \<open>connect\<close> resolves to pin 1, is a failed lookup in \<open>add_mate_pin\<close>. The
  reference \<open>A\<close> of \<open>X4\<close>, which \<open>connect\<close> rejects as a pin and a label at
  different positions, is accepted by \<open>add_mate_pin\<close> as the pin \<open>A\<close>.
\<close>

theorem add_mate_pin_direct_counterexample:
  "check_pin example_harness (Some ''X1'') (Some ''X2'') (Some ''X1'', Str ''GND'')
       (Str ''GND'', Num 1) = Inr (Num 1, Num 1)
   \<and> add_mate_pin plain_arrow example_harness ''X1'' (Str ''GND'') ''X2'' (Num 1) ''--''
       = Inl KeyError
   \<and> check_pin label_harness (Some ''X4'') (Some ''X2'') (Some ''X4'', Str ''A'')
       (Str ''A'', Num 1)
       = Inl (Exception ''X4:A is defined both in pinlabels and pins, for different pins.'')
   \<and> add_mate_pin plain_arrow label_harness ''X4'' (Str ''A'') ''X2'' (Num 1) ''--''
       = Inr (label_harness
           \<lparr>connectors :=
              [(''X2'', (mk_connector ''X2'' [Num 1, Num 2] [])
                  \<lparr>pin_objects := [(Num 1, \<lparr>activations = [(LEFT, False)]\<rparr>),
                                    (Num 2, \<lparr>activations = []\<rparr>)]\<rparr>),
               (''X3'', mk_connector ''X3'' [Num 1, Num 2] [Str ''A'', Str ''A'']),
               (''X4'', (mk_connector ''X4'' [Str ''A'', Str ''B''] [Str ''B'', Str ''A''])
                  \<lparr>pin_objects := [(Str ''A'', \<lparr>activations = [(RIGHT, False)]\<rparr>),
                                    (Str ''B'', \<lparr>activations = []\<rparr>)]\<rparr>),
               (''X5'', mk_connector ''X5'' [Str ''A'', Str ''B''] [Str ''A'', Str ''C''])],
            mates := [MatePin (PinAt ''X4'' (Str ''A'')) (PinAt ''X2'' (Num 1))
                        (Arrow NONE SINGLE)]\<rparr>)"
  by (simp add: add_mate_pin_def check_pin_def pin_object_def activate_def activate_pin_def
      bind_err_def example_harness_def label_harness_def mk_connector_def pin0_def
      plain_arrow_def str_of_ref_def Let_def)

section \<open>The BOM aggregator\<close>

subsection \<open>The mapping after a sequence of calls of \<open>_add\<close>\<close>

lemma fold_add_designator:
  "fold (add_designator pfx) ds s = s \<union> {x \<in> set ds. x \<noteq> [] \<and> \<not> startswith x pfx}"
  by (induction ds arbitrary: s) (auto simp: add_designator_def)

lemma bom_add_eq:
  "bom_add pfx k q d cat b
     = b(k \<mapsto> \<lparr>qty = Some (qty_of b k + q), designators = Some (des_of b k \<union> visible pfx d),
                entry_category = cat\<rparr>)"
  by (simp add: bom_add_def qty_of_def des_of_def visible_def fold_add_designator empty_entry_def
      Let_def split: option.splits)

lemma qty_of_bom_add:
  "qty_of (bom_add pfx k q d cat b) k' = qty_of b k' + (if k' = k then q else 0)"
  by (simp add: bom_add_eq) (simp add: qty_of_def)

lemma des_of_bom_add:
  "des_of (bom_add pfx k q d cat b) k' = des_of b k' \<union> (if k' = k then visible pfx d else {})"
  by (simp add: bom_add_eq) (simp add: des_of_def)

lemma total_Cons: "total (a # xs) k = (if fst a = k then fst (snd a) else 0) + total xs k"
  by (simp add: total_def)

lemma all_visible_Cons:
  "all_visible pfx (a # xs) k
     = (if fst a = k then visible pfx (fst (snd (snd a))) else {}) \<union> all_visible pfx xs k"
  by (simp add: all_visible_def)

lemma qty_of_fold:
  "qty_of (fold (apply_addition pfx) xs b) k = qty_of b k + total xs k"
proof (induction xs arbitrary: b)
  case Nil
  show ?case by (simp add: total_def)
next
  case (Cons a xs)
  obtain k0 q d c where a: "a = (k0, q, d, c)" by (cases a)
  show ?case by (simp add: Cons.IH a qty_of_bom_add total_Cons)
qed

lemma des_of_fold:
  "des_of (fold (apply_addition pfx) xs b) k = des_of b k \<union> all_visible pfx xs k"
proof (induction xs arbitrary: b)
  case Nil
  show ?case by (simp add: all_visible_def)
next
  case (Cons a xs)
  obtain k0 q d c where a: "a = (k0, q, d, c)" by (cases a)
  show ?case by (auto simp add: Cons.IH a des_of_bom_add all_visible_Cons)
qed

lemma fold_untouched:
  "k \<notin> fst ` set xs \<Longrightarrow> fold (apply_addition pfx) xs b k = b k"
proof (induction xs arbitrary: b)
  case Nil
  show ?case by simp
next
  case (Cons a xs)
  obtain k0 q d c where a: "a = (k0, q, d, c)" by (cases a)
  with Cons show ?case by (simp add: bom_add_eq)
qed

lemma last_category_append:
  "last_category (xs @ [a]) k = (if fst a = k then snd (snd (snd a)) else last_category xs k)"
  by (simp add: last_category_def)

lemma fold_touched:
  "k \<in> fst ` set xs \<Longrightarrow>
   fold (apply_addition pfx) xs b k
     = Some \<lparr>qty = Some (qty_of b k + total xs k),
             designators = Some (des_of b k \<union> all_visible pfx xs k),
             entry_category = last_category xs k\<rparr>"
proof (induction xs rule: rev_induct)
  case Nil
  then show ?case by simp
next
  case (snoc a xs)
  obtain k0 q d c where a: "a = (k0, q, d, c)" by (cases a)
  show ?case
  proof (cases "k0 = k")
    case True
    have "fold (apply_addition pfx) (xs @ [a]) b k
        = Some \<lparr>qty = Some (qty_of (fold (apply_addition pfx) xs b) k + q),
                designators = Some (des_of (fold (apply_addition pfx) xs b) k \<union> visible pfx d),
                entry_category = c\<rparr>"
      using True a by (simp add: bom_add_eq)
    also have "qty_of (fold (apply_addition pfx) xs b) k + q = qty_of b k + total (xs @ [a]) k"
      using True a by (simp add: qty_of_fold total_def)
    also have "des_of (fold (apply_addition pfx) xs b) k \<union> visible pfx d
        = des_of b k \<union> all_visible pfx (xs @ [a]) k"
      using True a by (auto simp add: des_of_fold all_visible_def)
    also have "c = last_category (xs @ [a]) k"
      using True a by (simp add: last_category_append)
    finally show ?thesis .
  next
    case False
    with snoc.prems a have k: "k \<in> fst ` set xs" by auto
    have "fold (apply_addition pfx) (xs @ [a]) b k = fold (apply_addition pfx) xs b k"
      using False a by (simp add: bom_add_eq)
    also note snoc.IH [OF k]
    also have "total xs k = total (xs @ [a]) k"
      using False a by (simp add: total_def)
    also have "all_visible pfx xs k = all_visible pfx (xs @ [a]) k"
      using False a by (simp add: all_visible_def)
    also have "last_category xs k = last_category (xs @ [a]) k"
      using False a by (simp add: last_category_append)
    finally show ?thesis .
  qed
qed


lemma fold_add_additional:
  "fold (add_additional pfx cat des) cs b
     = fold (apply_addition pfx) (additional_additions cat des cs) b"
  by (induction cs arbitrary: b) (simp_all add: additional_additions_def add_additional_def)

lemma fold_wires:
  "fold (\<lambda>subitem. bom_add pfx (bom_hash subitem) (bom_qty t) (Designator (designator t))
           (Some ''wire'')) ws b
     = fold (apply_addition pfx) (wire_additions t ws) b"
  by (induction ws arbitrary: b) (simp_all add: wire_additions_def)

lemma add_top_level_plain:
  "category t \<noteq> Some ''bundle'' \<Longrightarrow>
   add_top_level pfx cat t wires b
     = Inr (fold (apply_addition pfx) (top_level_additions cat t) b)"
  by (simp add: add_top_level_def top_level_additions_def fold_add_additional)

lemma add_top_level_no_wires:
  "category t = Some ''bundle'' \<Longrightarrow> add_top_level pfx cat t None b = Inl AttributeError"
  by (simp add: add_top_level_def)

lemma add_top_level_bundle:
  "category t = Some ''bundle'' \<Longrightarrow>
   add_top_level pfx ''wire'' t (Some ws) b
     = Inr (fold (apply_addition pfx)
         (wire_additions t ws @ additional_additions ''wire'' (designator t) (additional_components t))
         b)"
  by (simp add: add_top_level_def fold_add_additional fold_wires)

lemma add_to_internal_bom_additions:
  "add_to_internal_bom pfx x b
     = (case item_error x of
          Some e \<Rightarrow> Inl e
        | None \<Rightarrow> Inr (fold (apply_addition pfx) (additions x) b))"
proof (cases x)
  case (IsConnector c)
  then show ?thesis
    by (cases "category c = Some ''bundle''")
      (simp_all add: add_top_level_plain add_top_level_no_wires)
next
  case (IsCable c)
  then show ?thesis
    by (cases "category c = Some ''bundle''")
      (simp_all add: add_top_level_plain add_top_level_bundle)
next
  case (IsOtherTopLevel t)
  then show ?thesis
    by (cases "category t = Some ''bundle''")
      (simp_all add: add_top_level_plain add_top_level_no_wires)
next
  case (IsAdditionalComponent a)
  then show ?thesis by simp
next
  case (IsOtherComponent y)
  then show ?thesis by simp
qed

lemma add_items_additions:
  "add_items pfx xs b
     = (case first_error xs of
          Some e \<Rightarrow> Inl e
        | None \<Rightarrow> Inr (fold (apply_addition pfx) (concat (map additions xs)) b))"
  unfolding add_items_def
  by (induction xs arbitrary: b)
    (simp_all add: bind_err_def add_to_internal_bom_additions split: option.splits)

lemma first_error_append:
  "first_error (xs @ ys) = (case first_error xs of Some e \<Rightarrow> Some e | None \<Rightarrow> first_error ys)"
  by (induction xs) (simp_all split: option.splits)

lemma populate_bom_additions:
  "populate_bom pfx h
     = (case first_error (all_items h) of
          Some e \<Rightarrow> Inl e
        | None \<Rightarrow>
            Inr (h\<lparr>bom := fold (apply_addition pfx) (concat (map additions (all_items h))) (bom h)\<rparr>))"
  by (simp add: populate_bom_def all_items_def add_items_additions first_error_append bind_err_def
      split: option.splits)


lemma visible_not_prefixed: "{x \<in> visible pfx d. startswith x pfx} = {}"
  by (auto simp: visible_def)

lemma all_visible_not_prefixed: "{x \<in> all_visible pfx xs k. startswith x pfx} = {}"
  by (auto simp: all_visible_def visible_def)

lemma prefixed_fold:
  "{x \<in> des_of (fold (apply_addition pfx) xs b) k. startswith x pfx}
     = {x \<in> des_of b k. startswith x pfx}"
  using all_visible_not_prefixed [of pfx xs k] by (auto simp: des_of_fold)

lemma total_mset: "mset xs = mset ys \<Longrightarrow> total xs k = total ys k"
proof -
  assume m: "mset xs = mset ys"
  have "total zs k = sum_mset (image_mset (\<lambda>a. fst (snd a)) (filter_mset (\<lambda>a. fst a = k) (mset zs)))"
    for zs :: "addition list"
    by (simp add: total_def flip: sum_mset_sum_list)
  with m show ?thesis by simp
qed

lemma all_visible_set: "set xs = set ys \<Longrightarrow> all_visible pfx xs k = all_visible pfx ys k"
  by (simp add: all_visible_def)

lemma same_counts_permuted:
  assumes "mset xs = mset ys"
  shows "same_counts (fold (apply_addition pfx) xs b) (fold (apply_addition pfx) ys b)"
proof -
  have s: "set xs = set ys" using assms by (rule mset_eq_setD)
  have "map_option (\<lambda>e. (qty e, designators e)) (fold (apply_addition pfx) xs b k)
      = map_option (\<lambda>e. (qty e, designators e)) (fold (apply_addition pfx) ys b k)" for k
  proof (cases "k \<in> fst ` set xs")
    case True
    then have "k \<in> fst ` set ys" using s by simp
    with True show ?thesis
      by (simp add: fold_touched total_mset [OF assms] all_visible_set [OF s])
  next
    case False
    then have "k \<notin> fst ` set ys" using s by simp
    with False show ?thesis by (simp add: fold_untouched)
  qed
  then show ?thesis by (simp add: same_counts_def)
qed

lemma total_append: "total (xs @ ys) k = total xs k + total ys k"
  by (simp add: total_def)

lemma all_visible_append:
  "all_visible pfx (xs @ ys) k = all_visible pfx xs k \<union> all_visible pfx ys k"
  by (auto simp add: all_visible_def)

lemma total_wire_additions:
  "total (wire_additions t ws) k = bom_qty t * int (length (filter (\<lambda>w. bom_hash w = k) ws))"
  by (induction ws) (simp_all add: wire_additions_def total_def algebra_simps)

lemma total_additional_additions:
  "total (additional_additions cat des cs) k
     = sum_list (map bom_qty (filter (\<lambda>a. \<not> ignore_in_bom a \<and> bom_hash a = k) cs))"
  by (induction cs) (simp_all add: additional_additions_def total_def)

lemma keys_wire_additions: "fst ` set (wire_additions t ws) = bom_hash ` set ws"
  by (force simp add: wire_additions_def)

lemma keys_additional_additions:
  "fst ` set (additional_additions cat des cs) = bom_hash ` {a \<in> set cs. \<not> ignore_in_bom a}"
  by (force simp add: additional_additions_def)

lemma all_visible_wire_additions:
  "all_visible pfx (wire_additions t ws) k
     = (if k \<in> bom_hash ` set ws then visible pfx (Designator (designator t)) else {})"
  by (auto simp add: all_visible_def wire_additions_def)

lemma all_visible_additional_additions:
  "all_visible pfx (additional_additions cat des cs) k
     = (if k \<in> bom_hash ` {a \<in> set cs. \<not> ignore_in_bom a} then visible pfx (Designator des) else {})"
  by (auto simp add: all_visible_def additional_additions_def)



lemma shift_small: "n < 2 ^ 53 \<Longrightarrow> shift_of n = 0"
  by (subst shift_of.simps) simp

lemma shift_big: "\<not> n < 2 ^ 53 \<Longrightarrow> shift_of n = Suc (shift_of (n div 2))"
  by (subst shift_of.simps) simp

lemma bom_add_num_int:
  "bom_add_num pfx k (IntNum q) d cat (int_bom b) = int_bom (bom_add pfx k q d cat b)"
  by (auto simp add: bom_add_num_def bom_add_def int_bom_def int_entry_def num_add_def
      empty_entry_def empty_num_entry_def Let_def fun_eq_iff split: option.splits)

lemma erase_bom_add_num:
  "erase (bom_add_num pfx k q d cat b) = bom_add pfx k 0 d cat (erase b)"
  by (auto simp add: bom_add_num_def bom_add_def erase_def erase_entry_def
      empty_entry_def empty_num_entry_def Let_def fun_eq_iff split: option.splits)

lemma erase_fold:
  "erase (fold (apply_num_addition pfx) xs b)
     = fold (apply_addition pfx) (map erase_addition xs) (erase b)"
proof (induction xs arbitrary: b)
  case Nil
  show ?case by simp
next
  case (Cons a xs)
  obtain k q d c where a: "a = (k, q, d, c)" by (cases a)
  show ?case by (simp add: Cons.IH a erase_bom_add_num erase_addition_def)
qed

lemma erased_designators:
  "map_option (\<lambda>e. (qty e, designators e)) (erase b1 k)
     = map_option (\<lambda>e. (qty e, designators e)) (erase b2 k) \<Longrightarrow>
   map_option num_designators (b1 k) = map_option num_designators (b2 k)"
  by (cases "b1 k"; cases "b2 k") (simp_all add: erase_def erase_entry_def)

lemma same_designators_permuted:
  assumes "mset xs = mset ys"
  shows "same_designators (fold (apply_num_addition pfx) xs b)
           (fold (apply_num_addition pfx) ys b)"
proof -
  have "mset (map erase_addition xs) = mset (map erase_addition ys)"
    using assms by simp
  then have "same_counts (erase (fold (apply_num_addition pfx) xs b))
      (erase (fold (apply_num_addition pfx) ys b))"
    unfolding erase_fold by (rule same_counts_permuted)
  then show ?thesis
    unfolding same_counts_def same_designators_def by (blast intro: erased_designators)
qed

subsection \<open>The claims about the BOM\<close>




text \<open>
  Claim C7, as amended. A call of \<open>_add\<close> adds its quantity to the quantity of the
  entry under its key, with the addition of the numbers it is given and in the order
  of the calls, and joins its visible designators to the entry's designator set; the
  quantity and designators under every other key stay as they are. The keys and the
  designator sets do not depend on the order of the calls, whatever the numbers are.
  When the quantities are integers the quantities do not depend on it either:
  aggregating the items \<open>[A, A, B]\<close> and the items \<open>[A, B, A]\<close> gives the same
  exception, or two mappings with the same keys and under every key the same
  quantity and the same designator set, and so does any reordering of a sequence of
  calls of \<open>_add\<close>; on integer quantities the integer model is \<open>_add\<close> over numbers.
  The category of an entry is the one of the last call and is not part of the
  statement.
\<close>

theorem bom_aggregation_order_independent:
  "qty_of (bom_add pfx k q d cat b) k' = qty_of b k' + (if k' = k then q else 0)
   \<and> des_of (bom_add pfx k q d cat b) k' = des_of b k' \<union> (if k' = k then visible pfx d else {})
   \<and> rel_sum (=) same_counts (add_items pfx [A, A, B] b) (add_items pfx [A, B, A] b)
   \<and> (mset xs = mset ys \<longrightarrow>
        same_counts (fold (apply_addition pfx) xs b) (fold (apply_addition pfx) ys b))
   \<and> bom_add_num pfx k (IntNum q) d cat (int_bom b) = int_bom (bom_add pfx k q d cat b)
   \<and> map_option num_qty (bom_add_num pfx k n d cat nb k)
       = Some (Some (num_add (case nb k of None \<Rightarrow> IntNum 0
                              | Some e \<Rightarrow> (case num_qty e of None \<Rightarrow> IntNum 0 | Some v \<Rightarrow> v)) n))
   \<and> (mset ns = mset ms \<longrightarrow>
        same_designators (fold (apply_num_addition pfx) ns nb)
          (fold (apply_num_addition pfx) ms nb))"
proof (intro conjI impI)
  show "qty_of (bom_add pfx k q d cat b) k' = qty_of b k' + (if k' = k then q else 0)"
    by (rule qty_of_bom_add)
  show "des_of (bom_add pfx k q d cat b) k' = des_of b k' \<union> (if k' = k then visible pfx d else {})"
    by (rule des_of_bom_add)
  show "rel_sum (=) same_counts (add_items pfx [A, A, B] b) (add_items pfx [A, B, A] b)"
  proof -
    have e: "first_error [A, A, B] = first_error [A, B, A]"
      by (simp split: option.splits)
    have m: "mset (concat (map additions [A, A, B])) = mset (concat (map additions [A, B, A]))"
      by simp
    show ?thesis
      unfolding add_items_additions e
      using same_counts_permuted [OF m, of pfx b]
      by (simp split: option.splits)
  qed
  show "same_counts (fold (apply_addition pfx) xs b) (fold (apply_addition pfx) ys b)"
    if "mset xs = mset ys"
    using that by (rule same_counts_permuted)
  show "bom_add_num pfx k (IntNum q) d cat (int_bom b) = int_bom (bom_add pfx k q d cat b)"
    by (rule bom_add_num_int)
  show "map_option num_qty (bom_add_num pfx k n d cat nb k)
       = Some (Some (num_add (case nb k of None \<Rightarrow> IntNum 0
                              | Some e \<Rightarrow> (case num_qty e of None \<Rightarrow> IntNum 0 | Some v \<Rightarrow> v)) n))"
    by (simp add: bom_add_num_def empty_num_entry_def Let_def split: option.splits)
  show "same_designators (fold (apply_num_addition pfx) ns nb)
          (fold (apply_num_addition pfx) ms nb)"
    if "mset ns = mset ms"
    using that by (rule same_designators_permuted)
qed

theorem bom_aggregation_order_independent_witness:
  "mset [(''h'', 2::int, Designator ''X1'', Some ''connector''),
         (''h'', 2, Designator ''X1'', Some ''connector''),
         (''h'', 5, Designator ''X2'', Some ''cable'')]
     = mset [(''h'', 2, Designator ''X1'', Some ''connector''),
             (''h'', 5, Designator ''X2'', Some ''cable''),
             (''h'', 2, Designator ''X1'', Some ''connector'')]
   \<and> same_counts
        (fold (apply_addition example_prefix)
           [(''h'', 2, Designator ''X1'', Some ''connector''),
            (''h'', 2, Designator ''X1'', Some ''connector''),
            (''h'', 5, Designator ''X2'', Some ''cable'')] Map.empty)
        (fold (apply_addition example_prefix)
           [(''h'', 2, Designator ''X1'', Some ''connector''),
            (''h'', 5, Designator ''X2'', Some ''cable''),
            (''h'', 2, Designator ''X1'', Some ''connector'')] Map.empty)
   \<and> fold (apply_addition example_prefix)
           [(''h'', 2, Designator ''X1'', Some ''connector''),
            (''h'', 2, Designator ''X1'', Some ''connector''),
            (''h'', 5, Designator ''X2'', Some ''cable'')] Map.empty ''h''
       = Some \<lparr>qty = Some 9, designators = Some {''X1'', ''X2''}, entry_category = Some ''cable''\<rparr>
   \<and> fold (apply_addition example_prefix)
           [(''h'', 2, Designator ''X1'', Some ''connector''),
            (''h'', 5, Designator ''X2'', Some ''cable''),
            (''h'', 2, Designator ''X1'', Some ''connector'')] Map.empty ''h''
       = Some \<lparr>qty = Some 9, designators = Some {''X1'', ''X2''},
               entry_category = Some ''connector''\<rparr>
   \<and> mset [(''cable'', FloatNum 3602879701896397 (- 54), Designator ''W1'', Some ''cable''),
            (''cable'', FloatNum 3602879701896397 (- 54), Designator ''W1'', Some ''cable''),
            (''cable'', FloatNum 1 (- 1), Designator ''W2'', Some ''cable'')]
       = mset [(''cable'', FloatNum 3602879701896397 (- 54), Designator ''W1'', Some ''cable''),
               (''cable'', FloatNum 1 (- 1), Designator ''W2'', Some ''cable''),
               (''cable'', FloatNum 3602879701896397 (- 54), Designator ''W1'', Some ''cable'')]
   \<and> same_designators
        (fold (apply_num_addition example_prefix)
           [(''cable'', FloatNum 3602879701896397 (- 54), Designator ''W1'', Some ''cable''),
            (''cable'', FloatNum 3602879701896397 (- 54), Designator ''W1'', Some ''cable''),
            (''cable'', FloatNum 1 (- 1), Designator ''W2'', Some ''cable'')] Map.empty)
        (fold (apply_num_addition example_prefix)
           [(''cable'', FloatNum 3602879701896397 (- 54), Designator ''W1'', Some ''cable''),
            (''cable'', FloatNum 1 (- 1), Designator ''W2'', Some ''cable''),
            (''cable'', FloatNum 3602879701896397 (- 54), Designator ''W1'', Some ''cable'')] Map.empty)"
proof -
  let ?fa = "(''cable'', FloatNum 3602879701896397 (- 54), Designator ''W1'', Some ''cable'')"
  let ?fb = "(''cable'', FloatNum 1 (- 1), Designator ''W2'', Some ''cable'')"
  have fm: "mset [?fa, ?fa, ?fb] = mset [?fa, ?fb, ?fa]" by simp
  let ?a = "(''h'', 2::int, Designator ''X1'', Some ''connector'')"
  let ?b = "(''h'', 5::int, Designator ''X2'', Some ''cable'')"
  have m: "mset [?a, ?a, ?b] = mset [?a, ?b, ?a]" by simp
  have v: "fold (apply_addition example_prefix) [?a, ?a, ?b] Map.empty ''h''
       = Some \<lparr>qty = Some 9, designators = Some {''X1'', ''X2''}, entry_category = Some ''cable''\<rparr>"
    "fold (apply_addition example_prefix) [?a, ?b, ?a] Map.empty ''h''
       = Some \<lparr>qty = Some 9, designators = Some {''X1'', ''X2''},
               entry_category = Some ''connector''\<rparr>"
    by (auto simp add: bom_add_def empty_entry_def designator_list_def add_designator_def
        startswith_def example_prefix_def Let_def)
  from bom_aggregation_order_independent [where pfx = example_prefix and b = Map.empty
      and xs = "[?a, ?a, ?b]" and ys = "[?a, ?b, ?a]" and nb = Map.empty
      and ns = "[?fa, ?fa, ?fb]" and ms = "[?fa, ?fb, ?fa]"] m v fm
  show ?thesis by blast
qed

text \<open>
  The claim as stated fails for float quantities. Two cables of one type share a hash;
  \<open>A\<close> has the quantity 0.2, the float \<open>3602879701896397 * 2 ^ -54\<close>, and \<open>B\<close> the
  quantity 0.5. The order \<open>[A, A, B]\<close> gives \<open>(0.2 + 0.2) + 0.5\<close>, the float
  \<open>8106479329266893 * 2 ^ -53\<close> that prints as 0.9; the order \<open>[A, B, A]\<close> gives
  \<open>(0.2 + 0.5) + 0.2\<close>, the float \<open>8106479329266892 * 2 ^ -53\<close> that prints as
  0.8999999999999999. The two results have the same exponent and different
  mantissas, so they are different numbers.
\<close>

theorem bom_aggregation_order_independent_counterexample:
  "fold (apply_num_addition example_prefix)
       [(''cable'', FloatNum 3602879701896397 (- 54), Designator ''W1'', Some ''cable''),
        (''cable'', FloatNum 3602879701896397 (- 54), Designator ''W1'', Some ''cable''),
        (''cable'', FloatNum 1 (- 1), Designator ''W2'', Some ''cable'')] Map.empty ''cable''
     = Some \<lparr>num_qty = Some (FloatNum 8106479329266893 (- 53)),
             num_designators = Some {''W1'', ''W2''}, num_category = Some ''cable''\<rparr>
   \<and> fold (apply_num_addition example_prefix)
       [(''cable'', FloatNum 3602879701896397 (- 54), Designator ''W1'', Some ''cable''),
        (''cable'', FloatNum 1 (- 1), Designator ''W2'', Some ''cable''),
        (''cable'', FloatNum 3602879701896397 (- 54), Designator ''W1'', Some ''cable'')] Map.empty ''cable''
     = Some \<lparr>num_qty = Some (FloatNum 8106479329266892 (- 53)),
             num_designators = Some {''W1'', ''W2''}, num_category = Some ''cable''\<rparr>"
  by (auto simp add: bom_add_num_def empty_num_entry_def designator_list_def add_designator_def
      startswith_def example_prefix_def num_add_def float_add_def as_float_def round53_def
      shift_small shift_big Let_def)

text \<open>
  Claim C8. No call of \<open>_add\<close> adds a designator that starts with the autogenerated
  prefix: under every key, the designators with the prefix are the same after the
  call as before it. The same holds for every sequence of items given to
  \<open>_add_to_internal_bom\<close> and for \<open>populate_bom\<close>, so a BOM built from the empty
  mapping has none, however many items carry such a designator.
\<close>

theorem autogenerated_never_added:
  "{x \<in> des_of (bom_add pfx k q d cat b) k'. startswith x pfx}
       = {x \<in> des_of b k'. startswith x pfx}
   \<and> (\<forall>b'. add_items pfx xs b = Inr b' \<longrightarrow>
         {x \<in> des_of b' k'. startswith x pfx} = {x \<in> des_of b k'. startswith x pfx})
   \<and> (\<forall>h'. populate_bom pfx h = Inr h' \<longrightarrow>
         {x \<in> des_of (bom h') k'. startswith x pfx} = {x \<in> des_of (bom h) k'. startswith x pfx})"
proof (intro conjI allI impI)
  show "{x \<in> des_of (bom_add pfx k q d cat b) k'. startswith x pfx}
       = {x \<in> des_of b k'. startswith x pfx}"
    using visible_not_prefixed [of pfx d] by (auto simp: des_of_bom_add)
next
  fix b' assume "add_items pfx xs b = Inr b'"
  then have "b' = fold (apply_addition pfx) (concat (map additions xs)) b"
    by (simp add: add_items_additions split: option.splits)
  then show "{x \<in> des_of b' k'. startswith x pfx} = {x \<in> des_of b k'. startswith x pfx}"
    by (simp only: prefixed_fold)
next
  fix h' assume "populate_bom pfx h = Inr h'"
  then have "bom h' = fold (apply_addition pfx) (concat (map additions (all_items h))) (bom h)"
    by (auto simp add: populate_bom_additions split: option.splits)
  then show "{x \<in> des_of (bom h') k'. startswith x pfx}
      = {x \<in> des_of (bom h) k'. startswith x pfx}"
    by (simp only: prefixed_fold)
qed

theorem autogenerated_never_added_witness:
  "populate_bom example_prefix auto_harness
       = Inr (auto_harness\<lparr>bom := [''connector'' \<mapsto>
            \<lparr>qty = Some 3, designators = Some {''X1''}, entry_category = Some ''connector''\<rparr>]\<rparr>)
   \<and> add_items example_prefix
         [IsConnector (mk_connector ''AUTOGENERATED_F1'' [Num 1] []),
          IsConnector (mk_connector ''AUTOGENERATED_F1'' [Num 1] [])] Map.empty
       = Inr [''connector'' \<mapsto>
            \<lparr>qty = Some 2, designators = Some {}, entry_category = Some ''connector''\<rparr>]
   \<and> {x \<in> des_of [''connector'' \<mapsto>
            \<lparr>qty = Some 3, designators = Some {''X1''}, entry_category = Some ''connector''\<rparr>]
          ''connector''. startswith x example_prefix} = {}
   \<and> {x \<in> des_of [''connector'' \<mapsto>
            \<lparr>qty = Some 2, designators = Some {}, entry_category = Some ''connector''\<rparr>]
          ''connector''. startswith x example_prefix} = {}"
proof -
  have p: "populate_bom example_prefix auto_harness
       = Inr (auto_harness\<lparr>bom := [''connector'' \<mapsto>
            \<lparr>qty = Some 3, designators = Some {''X1''}, entry_category = Some ''connector''\<rparr>]\<rparr>)"
    by (simp add: populate_bom_def add_items_def add_top_level_def bom_add_def bind_err_def
        auto_harness_def mk_connector_def example_prefix_def empty_entry_def
        designator_list_def add_designator_def startswith_def Let_def)
  have a: "add_items example_prefix
         [IsConnector (mk_connector ''AUTOGENERATED_F1'' [Num 1] []),
          IsConnector (mk_connector ''AUTOGENERATED_F1'' [Num 1] [])] Map.empty
       = Inr [''connector'' \<mapsto>
            \<lparr>qty = Some 2, designators = Some {}, entry_category = Some ''connector''\<rparr>]"
    by (simp add: add_items_def add_top_level_def bom_add_def bind_err_def
        mk_connector_def example_prefix_def empty_entry_def
        designator_list_def add_designator_def startswith_def Let_def)
  have e: "des_of (bom auto_harness) ''connector'' = {}" "des_of Map.empty ''connector'' = {}"
    by (simp_all add: des_of_def auto_harness_def)
  from autogenerated_never_added [where pfx = example_prefix and h = auto_harness
      and k' = "''connector''" and b = Map.empty
      and xs = "[IsConnector (mk_connector ''AUTOGENERATED_F1'' [Num 1] []),
                 IsConnector (mk_connector ''AUTOGENERATED_F1'' [Num 1] [])]"] p a e
  show ?thesis by simp
qed

text \<open>
  Claim C9. For a cable of category \<open>bundle\<close> that is not ignored,
  \<open>_add_to_internal_bom\<close> makes no call of \<open>_add\<close> with the cable's own hash: it
  makes one call for each value of \<open>wire_objects\<close>, with the wire's hash, the bundle's
  quantity and the bundle's designator, and then the calls for the additional
  components. So the quantity under a key grows by the bundle's quantity for every wire
  with that hash (plus the quantities of the additional components with that hash),
  the bundle's designator is joined to the entries of those keys, and the entry under
  the cable's own hash is left as it was unless a wire or an additional component has
  that same hash.
\<close>

theorem bundle_adds_wires:
  assumes "category c = Some ''bundle''" and "\<not> ignore_in_bom c"
  shows "add_to_internal_bom pfx (IsCable c) b
           = Inr (fold (add_additional pfx ''wire'' (designator c)) (additional_components c)
               (fold (\<lambda>w. bom_add pfx (bom_hash w) (bom_qty c) (Designator (designator c))
                        (Some ''wire''))
                  (map snd (wire_objects c)) b))
       \<and> (\<forall>b'. add_to_internal_bom pfx (IsCable c) b = Inr b' \<longrightarrow>
            (\<forall>k. qty_of b' k
                   = qty_of b k
                     + bom_qty c * int (length (filter (\<lambda>w. bom_hash (snd w) = k) (wire_objects c)))
                     + sum_list (map bom_qty
                         (filter (\<lambda>a. \<not> ignore_in_bom a \<and> bom_hash a = k)
                            (additional_components c))))
          \<and> (\<forall>k. des_of b' k
                   = des_of b k
                     \<union> (if k \<in> bom_hash ` snd ` set (wire_objects c)
                             \<union> bom_hash ` {a \<in> set (additional_components c). \<not> ignore_in_bom a}
                        then visible pfx (Designator (designator c)) else {}))
          \<and> (bom_hash c \<notin> bom_hash ` snd ` set (wire_objects c)
                             \<union> bom_hash ` {a \<in> set (additional_components c). \<not> ignore_in_bom a}
               \<longrightarrow> b' (bom_hash c) = b (bom_hash c)))"
proof -
  let ?xs = "wire_additions c (map snd (wire_objects c))
      @ additional_additions ''wire'' (designator c) (additional_components c)"
  have src: "add_to_internal_bom pfx (IsCable c) b
           = Inr (fold (add_additional pfx ''wire'' (designator c)) (additional_components c)
               (fold (\<lambda>w. bom_add pfx (bom_hash w) (bom_qty c) (Designator (designator c))
                        (Some ''wire''))
                  (map snd (wire_objects c)) b))"
    using assms by (simp add: add_top_level_def)
  have r: "add_to_internal_bom pfx (IsCable c) b = Inr (fold (apply_addition pfx) ?xs b)"
    using assms by (simp add: add_to_internal_bom_additions)
  have keys: "fst ` set ?xs = bom_hash ` snd ` set (wire_objects c)
      \<union> bom_hash ` {a \<in> set (additional_components c). \<not> ignore_in_bom a}"
    by (simp add: keys_wire_additions keys_additional_additions image_Un)
  have q: "qty_of (fold (apply_addition pfx) ?xs b) k
      = qty_of b k
        + bom_qty c * int (length (filter (\<lambda>w. bom_hash (snd w) = k) (wire_objects c)))
        + sum_list (map bom_qty
            (filter (\<lambda>a. \<not> ignore_in_bom a \<and> bom_hash a = k) (additional_components c)))" for k
    by (simp add: qty_of_fold total_append total_wire_additions total_additional_additions
        filter_map comp_def)
  have d: "des_of (fold (apply_addition pfx) ?xs b) k
      = des_of b k
        \<union> (if k \<in> bom_hash ` snd ` set (wire_objects c)
                \<union> bom_hash ` {a \<in> set (additional_components c). \<not> ignore_in_bom a}
           then visible pfx (Designator (designator c)) else {})" for k
    by (auto simp add: des_of_fold all_visible_append all_visible_wire_additions
        all_visible_additional_additions)
  have u: "fold (apply_addition pfx) ?xs b (bom_hash c) = b (bom_hash c)"
    if "bom_hash c \<notin> bom_hash ` snd ` set (wire_objects c)
          \<union> bom_hash ` {a \<in> set (additional_components c). \<not> ignore_in_bom a}"
    using that keys by (intro fold_untouched) simp
  show ?thesis
    using src q d u unfolding r by simp
qed


theorem bundle_adds_wires_witness:
  "category W2 = Some ''bundle'' \<and> \<not> ignore_in_bom W2
   \<and> add_to_internal_bom example_prefix (IsCable W2) Map.empty
       = Inr [''wire RD'' \<mapsto> \<lparr>qty = Some 3, designators = Some {''W2''},
                                entry_category = Some ''wire''\<rparr>,
              ''wire BK'' \<mapsto> \<lparr>qty = Some 3, designators = Some {''W2''},
                                entry_category = Some ''wire''\<rparr>]
   \<and> bom_hash W2 \<notin> bom_hash ` snd ` set (wire_objects W2)
        \<union> bom_hash ` {a \<in> set (additional_components W2). \<not> ignore_in_bom a}
   \<and> [''wire RD'' \<mapsto> \<lparr>qty = Some 3, designators = Some {''W2''},
                          entry_category = Some ''wire''\<rparr>,
        ''wire BK'' \<mapsto> \<lparr>qty = Some 3, designators = Some {''W2''},
                          entry_category = Some ''wire''\<rparr>] (bom_hash W2) = None
   \<and> qty_of [''wire RD'' \<mapsto> \<lparr>qty = Some 3, designators = Some {''W2''},
                                 entry_category = Some ''wire''\<rparr>,
               ''wire BK'' \<mapsto> \<lparr>qty = Some 3, designators = Some {''W2''},
                                 entry_category = Some ''wire''\<rparr>] ''wire RD'' = 3"
proof -
  let ?B = "[''wire RD'' \<mapsto> \<lparr>qty = Some (3::int), designators = Some {''W2''},
                                entry_category = Some ''wire''\<rparr>,
              ''wire BK'' \<mapsto> \<lparr>qty = Some 3, designators = Some {''W2''},
                                entry_category = Some ''wire''\<rparr>]"
  have c: "category W2 = Some ''bundle''" and i: "\<not> ignore_in_bom W2"
    by (simp_all add: W2_def)
  have t: "bom_hash W2 \<notin> bom_hash ` snd ` set (wire_objects W2)
        \<union> bom_hash ` {a \<in> set (additional_components W2). \<not> ignore_in_bom a}"
    by (simp add: W2_def)
  have e: "add_to_internal_bom example_prefix (IsCable W2) Map.empty = Inr ?B"
    by (simp add: add_top_level_def bom_add_def W2_def example_prefix_def empty_entry_def
        designator_list_def add_designator_def startswith_def Let_def)
  have z: "qty_of Map.empty ''wire RD'' = 0" "Map.empty (bom_hash W2) = (None :: bom_entry option)"
    by (simp_all add: qty_of_def)
  from bundle_adds_wires [OF c i, of example_prefix Map.empty, THEN conjunct2, rule_format, OF e]
    c i t e z
  show ?thesis by (simp add: W2_def)
qed

end
